theory Spec2Isabelle
  imports Complex_Main "HOL-Library.AList"
begin

chapter \<open>The risk-assessment workflow of the customer risk backend\<close>

text \<open>
  A shallow embedding of the backend's handlers and of the risk service: the four tables,
  the ORM session with its commits, the queries that select the latest prediction of a
  customer, the schema validators, the wrapper around the pickled estimator, and the
  endpoints for customers, predictions and mitigations. The theorems at the end settle,
  against these definitions, what the specification says about the mitigation gate, the
  cascade of a customer's deletion, the current risk level, the risk distribution and
  its two totals, what a predict request stores, how features are written, which risk
  levels can be stored, and which writes are atomic.
\<close>

section \<open>Data model (app/db/models.py)\<close>

text \<open>
  Identifiers are the UUID primary keys, timestamps the \<open>DateTime\<close> columns; only equality
  of identifiers and the order of timestamps matter, so both are natural numbers. \<open>Float\<close>
  columns are carried as reals: no arithmetic is done on them.
\<close>

type_synonym uuid = nat
type_synonym datetime = nat

record Customer =
  c_id :: uuid
  c_external_id :: "string option"
  c_name :: string
  c_email :: "string option"
  c_phone :: "string option"
  c_created_at :: datetime
  c_updated_at :: "datetime option"

record CustomerFeatureRecord =
  f_id :: uuid
  f_customer_id :: uuid
  feature_name :: string
  feature_value :: real
  recorded_at :: datetime

record RiskPredictionRecord =
  p_id :: uuid
  p_customer_id :: uuid
  p_risk_level :: string
  p_confidence_score :: "real option"
  prediction_timestamp :: datetime

record MitigationRecord =
  m_id :: uuid
  m_customer_id :: uuid
  m_risk_level :: string
  m_mitigation_type :: string
  m_description :: string
  m_assigned_to :: "string option"
  m_due_date :: "datetime option"
  m_created_at :: datetime
  m_updated_at :: "datetime option"
  m_status :: string

text \<open>The four tables, each a list of rows in storage order.\<close>

record db =
  customers :: "Customer list"
  customer_features :: "CustomerFeatureRecord list"
  risk_predictions :: "RiskPredictionRecord list"
  mitigations :: "MitigationRecord list"

section \<open>Exceptions\<close>

text \<open>
  Every \<open>raise\<close> of the source, of Python's built-ins and of the libraries the handlers
  call is a value. A message is either a fixed text or an f-string that interpolates
  \<open>str(e)\<close> of a caught exception, kept as the prefix and the exception.
  \<open>ValidationError\<close> is what pydantic raises for a body: it carries the error of every
  field validator that failed. \<open>IntegrityError\<close> is the database refusing a statement;
  it names the column whose constraint is violated. \<open>Raised\<close> stands for an exception
  coming out of the pickled estimator. The texts of the source's own exceptions are kept
  word for word; those of Python's built-ins are cut to their fixed part.
\<close>

datatype exn =
    HTTPException nat detail
  | ValueError detail
  | TypeError detail
  | OverflowError detail
  | ValidationError "exn list"
  | IntegrityError string
  | Raised string
and detail = Text string | Wrap string exn

section \<open>The ORM session\<close>

text \<open>
  A session sees its own pending writes (\<open>view\<close>); \<open>db.commit()\<close> makes them the stored
  state, which is what every later request starts from. When a handler raises, nothing
  commits what it had only added: the session ends with its pending writes dropped
  (\<open>db_rollback\<close>) and \<open>stored\<close> as the last commit made it.
\<close>

record session =
  stored :: db
  view :: db

definition open_session :: "db \<Rightarrow> session" where
  "open_session d = \<lparr>stored = d, view = d\<rparr>"

definition db_commit :: "session \<Rightarrow> session" where
  "db_commit s = s\<lparr>stored := view s\<rparr>"

definition db_rollback :: "session \<Rightarrow> session" where
  "db_rollback s = s\<lparr>view := stored s\<rparr>"

definition add_customer :: "Customer \<Rightarrow> session \<Rightarrow> session" where
  "add_customer c s = s\<lparr>view := (view s)\<lparr>customers := customers (view s) @ [c]\<rparr>\<rparr>"

definition add_feature :: "CustomerFeatureRecord \<Rightarrow> session \<Rightarrow> session" where
  "add_feature f s =
     s\<lparr>view := (view s)\<lparr>customer_features := customer_features (view s) @ [f]\<rparr>\<rparr>"

definition add_prediction :: "RiskPredictionRecord \<Rightarrow> session \<Rightarrow> session" where
  "add_prediction p s =
     s\<lparr>view := (view s)\<lparr>risk_predictions := risk_predictions (view s) @ [p]\<rparr>\<rparr>"

definition add_mitigation :: "MitigationRecord \<Rightarrow> session \<Rightarrow> session" where
  "add_mitigation m s = s\<lparr>view := (view s)\<lparr>mitigations := mitigations (view s) @ [m]\<rparr>\<rparr>"

section \<open>Queries\<close>

text \<open>\<open>.first()\<close>: the first row of the result, or \<open>None\<close>.\<close>

definition first :: "'a list \<Rightarrow> 'a option" where
  "first rows = (case rows of [] \<Rightarrow> None | r # _ \<Rightarrow> Some r)"

text \<open>
  \<open>.order_by(col.desc())\<close>: a stable descending sort. SQL leaves the order of rows with
  equal keys open; the databases return them in the order of insertion, and so does the
  model.
\<close>

definition order_by_desc :: "('a \<Rightarrow> datetime) \<Rightarrow> 'a list \<Rightarrow> 'a list" where
  "order_by_desc key rows = rev (sort_key key (rev rows))"

definition get_customer_row :: "uuid \<Rightarrow> db \<Rightarrow> Customer option" where
  "get_customer_row cid d = first (filter (\<lambda>c. c_id c = cid) (customers d))"

text \<open>
  The query written out in get_customer, list_customers and create_mitigation:
  the customer's predictions, newest first, first row.
\<close>

definition latest_prediction :: "uuid \<Rightarrow> db \<Rightarrow> RiskPredictionRecord option" where
  "latest_prediction cid d =
     first (order_by_desc prediction_timestamp
              (filter (\<lambda>p. p_customer_id p = cid) (risk_predictions d)))"

text \<open>
  The subquery of both risk distributions selects customer id and risk level with
  \<open>.distinct(RiskPredictionRecord.customer_id)\<close>, ordered by customer and then newest
  first. What that is depends on the database behind \<open>DATABASE_URL\<close>. PostgreSQL renders
  \<open>DISTINCT ON (customer_id)\<close>, which keeps, for every customer id in the table, the first
  row of that order: the customer's latest prediction. SQLite (the default URL of
  app/core/config.py) has no \<open>DISTINCT ON\<close>: the argument is dropped and the query is a plain
  \<open>SELECT DISTINCT customer_id, risk_level\<close>, one row for every pair that occurs.
\<close>

datatype dialect = PostgreSQL | SQLite

fun latest_levels :: "dialect \<Rightarrow> db \<Rightarrow> (uuid \<times> string) list" where
  "latest_levels PostgreSQL d =
     List.map_filter
       (\<lambda>cid. map_option (\<lambda>p. (cid, p_risk_level p)) (latest_prediction cid d))
       (sort (remdups (map p_customer_id (risk_predictions d))))"
| "latest_levels SQLite d =
     remdups
       (map (\<lambda>p. (p_customer_id p, p_risk_level p))
          (sort_key p_customer_id (order_by_desc prediction_timestamp (risk_predictions d))))"

declare latest_levels.simps [simp del]

definition count_level :: "string \<Rightarrow> (uuid \<times> string) list \<Rightarrow> nat" where
  "count_level l rows = length (filter (\<lambda>r. snd r = l) rows)"

section \<open>Request schemas and their validators (app/models/schemas.py)\<close>

record MitigationCreate =
  mc_customer_id :: uuid
  mc_risk_level :: string
  mc_mitigation_type :: string
  mc_description :: string
  mc_assigned_to :: "string option"
  mc_due_date :: "datetime option"

definition validate_risk_level :: "string \<Rightarrow> exn + string" where
  "validate_risk_level v =
     (if v \<notin> set [''Low'', ''Medium'', ''High'']
      then Inl (ValueError (Text ''risk_level must be one of ['Low', 'Medium', 'High']''))
      else Inr v)"

definition validate_high_risk :: "string \<Rightarrow> exn + string" where
  "validate_high_risk v =
     (if v \<noteq> ''High''
      then Inl (ValueError (Text ''Mitigations can only be applied to high-risk customers''))
      else Inr v)"

definition validate_mitigation_type :: "string \<Rightarrow> exn + string" where
  "validate_mitigation_type v =
     (if v \<notin> set [''Flag'', ''Note'', ''Action'', ''Monitor'']
      then Inl (ValueError (Text ''mitigation_type must be one of ['Flag', 'Note', 'Action', 'Monitor']''))
      else Inr v)"

text \<open>
  Building a \<open>MitigationCreate\<close> from the request body runs every field validator, in the
  order of the fields, and collects the failures: if there is any, the body is rejected
  with one \<open>ValidationError\<close> holding them all and the handler is not called.
\<close>

definition parse_MitigationCreate :: "MitigationCreate \<Rightarrow> exn + MitigationCreate" where
  "parse_MitigationCreate body =
     (let errors =
            (case validate_high_risk (mc_risk_level body) of Inl e \<Rightarrow> [e] | Inr _ \<Rightarrow> []) @
            (case validate_mitigation_type (mc_mitigation_type body) of
               Inl e \<Rightarrow> [e]
             | Inr _ \<Rightarrow> [])
      in if errors = [] then Inr body else Inl (ValidationError errors))"

section \<open>Mitigation endpoints (app/api/endpoints/mitigations.py)\<close>

text \<open>
  \<open>uuid4\<close> is the value the column default draws for the new row and \<open>now\<close> the clock
  reading of \<open>datetime.utcnow\<close>. The handler's \<open>except Exception\<close> clause only re-labels
  failures of the database driver, which the model does not have; its HTTPExceptions
  pass through unchanged.
\<close>

definition create_mitigation ::
  "uuid \<Rightarrow> datetime \<Rightarrow> MitigationCreate \<Rightarrow> session \<Rightarrow> (exn + MitigationRecord) \<times> session" where
  "create_mitigation uuid4 now mitigation s =
     (case get_customer_row (mc_customer_id mitigation) (view s) of
        None \<Rightarrow> (Inl (HTTPException 404 (Text ''Customer not found'')), s)
      | Some customer \<Rightarrow>
          (case latest_prediction (mc_customer_id mitigation) (view s) of
             None \<Rightarrow>
               (Inl (HTTPException 400
                  (Text ''Mitigations can only be applied to high-risk customers'')), s)
           | Some lp \<Rightarrow>
               if p_risk_level lp \<noteq> ''High'' then
                 (Inl (HTTPException 400
                    (Text ''Mitigations can only be applied to high-risk customers'')), s)
               else
                 (let db_mitigation =
                        \<lparr>m_id = uuid4,
                         m_customer_id = mc_customer_id mitigation,
                         m_risk_level = mc_risk_level mitigation,
                         m_mitigation_type = mc_mitigation_type mitigation,
                         m_description = mc_description mitigation,
                         m_assigned_to = mc_assigned_to mitigation,
                         m_due_date = mc_due_date mitigation,
                         m_created_at = now,
                         m_updated_at = None,
                         m_status = ''Pending''\<rparr>
                  in (Inr db_mitigation, db_commit (add_mitigation db_mitigation s)))))"

text \<open>The POST route: the body is validated into a \<open>MitigationCreate\<close>, then handled.\<close>

definition post_mitigation ::
  "uuid \<Rightarrow> datetime \<Rightarrow> MitigationCreate \<Rightarrow> session \<Rightarrow> (exn + MitigationRecord) \<times> session" where
  "post_mitigation uuid4 now body s =
     (case parse_MitigationCreate body of
        Inl e \<Rightarrow> (Inl e, s)
      | Inr mitigation \<Rightarrow> create_mitigation uuid4 now mitigation s)"

definition get_mitigation :: "uuid \<Rightarrow> session \<Rightarrow> exn + MitigationRecord" where
  "get_mitigation mitigation_id s =
     (case first (filter (\<lambda>m. m_id m = mitigation_id) (mitigations (view s))) of
        None \<Rightarrow> Inl (HTTPException 404 (Text ''Mitigation not found''))
      | Some mitigation \<Rightarrow> Inr mitigation)"

text \<open>The row found by \<open>.first()\<close> is the one the ORM writes back: the first with that id.\<close>

fun update_first :: "('a \<Rightarrow> bool) \<Rightarrow> ('a \<Rightarrow> 'a) \<Rightarrow> 'a list \<Rightarrow> 'a list" where
  "update_first P g [] = []"
| "update_first P g (x # xs) = (if P x then g x # xs else x # update_first P g xs)"

definition update_mitigation_status ::
  "datetime \<Rightarrow> uuid \<Rightarrow> string \<Rightarrow> session \<Rightarrow> (exn + MitigationRecord) \<times> session" where
  "update_mitigation_status now mitigation_id status s =
     (if status \<notin> set [''Pending'', ''In Progress'', ''Completed'', ''Cancelled''] then
        (Inl (HTTPException 400
           (Text ''Invalid status. Must be one of: Pending, In Progress, Completed, Cancelled'')), s)
      else
        (case first (filter (\<lambda>m. m_id m = mitigation_id) (mitigations (view s))) of
           None \<Rightarrow> (Inl (HTTPException 404 (Text ''Mitigation not found'')), s)
         | Some mitigation \<Rightarrow>
             (let mitigation' = mitigation\<lparr>m_status := status, m_updated_at := Some now\<rparr>;
                  s' = s\<lparr>view := (view s)\<lparr>mitigations :=
                          update_first (\<lambda>m. m_id m = mitigation_id)
                            (\<lambda>m. m\<lparr>m_status := status, m_updated_at := Some now\<rparr>)
                            (mitigations (view s))\<rparr>\<rparr>
              in (Inr mitigation', db_commit s'))))"

section \<open>Feature dictionaries\<close>

text \<open>
  The values a feature dictionary can hold after the request body is parsed: the declared
  fields of \<open>CustomerFeatures\<close> are optional numbers, and \<open>extra = "allow"\<close> lets any
  other JSON value through (\<open>POther\<close> stands for arrays and objects). A dictionary is the
  list of its items in iteration order.
\<close>

datatype pyval = PNone | PBool bool | PInt int | PFloat real | PStr string | POther

type_synonym features_dict = "(string \<times> pyval) list"

text \<open>\<open>isinstance(v, (int, float))\<close>; a Python bool is an int.\<close>

fun is_number :: "pyval \<Rightarrow> bool" where
  "is_number (PBool _) = True"
| "is_number (PInt _) = True"
| "is_number (PFloat _) = True"
| "is_number _ = False"

text \<open>
  \<open>float(i)\<close> of an int is the nearest double, ties to even, and raises OverflowError
  when that is beyond the largest double. A double has 53 significant bits: an int with
  more is rounded to a multiple of the power of two that its excess bits span.
\<close>

fun bit_length :: "nat \<Rightarrow> nat" where
  "bit_length n = (if n = 0 then 0 else Suc (bit_length (n div 2)))"

declare bit_length.simps [simp del]

definition round_half_even :: "nat \<Rightarrow> nat \<Rightarrow> nat" where
  "round_half_even a sh =
     (let q = a div 2 ^ sh; r = a mod 2 ^ sh
      in (if 2 ^ sh < 2 * r \<or> (2 * r = 2 ^ sh \<and> odd q) then q + 1 else q) * 2 ^ sh)"

definition nearest_double :: "nat \<Rightarrow> nat option" where
  "nearest_double a =
     (let m = (if bit_length a \<le> 53 then a else round_half_even a (bit_length a - 53))
      in if 2 ^ 1024 \<le> m then None else Some m)"

definition int_float :: "int \<Rightarrow> exn + real" where
  "int_float i =
     (case nearest_double (nat \<bar>i\<bar>) of
        None \<Rightarrow> Inl (OverflowError (Text ''int too large to convert to float''))
      | Some m \<Rightarrow> Inr (if i < 0 then - real m else real m))"

text \<open>
  \<open>float(v)\<close>. What Python's parser makes of a string is the parameter \<open>str_float\<close>
  (\<open>None\<close> where it raises); a float is returned as it is.
\<close>

fun py_float :: "(string \<Rightarrow> real option) \<Rightarrow> pyval \<Rightarrow> exn + real" where
  "py_float str_float PNone = Inl (TypeError (Text ''float() argument must be a string or a number''))"
| "py_float str_float (PBool b) = Inr (if b then 1 else 0)"
| "py_float str_float (PInt i) = int_float i"
| "py_float str_float (PFloat x) = Inr x"
| "py_float str_float (PStr t) =
     (case str_float t of
        None \<Rightarrow> Inl (ValueError (Text ''could not convert string to float''))
      | Some x \<Rightarrow> Inr x)"
| "py_float str_float POther = Inl (TypeError (Text ''float() argument must be a string or a number''))"

section \<open>Customer endpoints (app/api/endpoints/customers.py)\<close>

record CustomerCreate =
  cc_name :: string
  cc_email :: "string option"
  cc_phone :: "string option"
  cc_external_id :: "string option"

text \<open>
  A \<open>CustomerBase\<close> sent as an update: \<open>dict(exclude_unset=True)\<close> holds the required
  name and those optional fields the body set (\<open>Some None\<close> is a field set to null).
\<close>

record CustomerBase =
  cb_name :: string
  cb_email :: "string option option"
  cb_phone :: "string option option"

text \<open>
  The dictionary \<open>get_customer\<close> returns. The three risk keys are written only when the
  customer has a prediction: \<open>None\<close> is a key that is not in the dictionary.
\<close>

record customer_data =
  cd_id :: uuid
  cd_name :: string
  cd_email :: "string option"
  cd_phone :: "string option"
  cd_external_id :: "string option"
  cd_created_at :: datetime
  cd_updated_at :: "datetime option"
  cd_features :: "(string \<times> real) list"
  cd_risk_level :: "string option"
  cd_confidence_score :: "real option option"
  cd_last_prediction :: "datetime option"

definition get_customer :: "uuid \<Rightarrow> session \<Rightarrow> exn + customer_data" where
  "get_customer customer_id s =
     (case get_customer_row customer_id (view s) of
        None \<Rightarrow> Inl (HTTPException 404 (Text ''Customer not found''))
      | Some customer \<Rightarrow>
          (let latest = latest_prediction (c_id customer) (view s);
               features_records =
                 filter (\<lambda>f. f_customer_id f = c_id customer) (customer_features (view s));
               features =
                 fold (\<lambda>f d. AList.update (feature_name f) (feature_value f) d)
                   features_records [];
               data =
                 \<lparr>cd_id = c_id customer,
                  cd_name = c_name customer,
                  cd_email = c_email customer,
                  cd_phone = c_phone customer,
                  cd_external_id = c_external_id customer,
                  cd_created_at = c_created_at customer,
                  cd_updated_at = c_updated_at customer,
                  cd_features = features,
                  cd_risk_level = None,
                  cd_confidence_score = None,
                  cd_last_prediction = None\<rparr>
           in Inr (case latest of
                     None \<Rightarrow> data
                   | Some lp \<Rightarrow>
                       data\<lparr>cd_risk_level := Some (p_risk_level lp),
                            cd_confidence_score := Some (p_confidence_score lp),
                            cd_last_prediction := Some (prediction_timestamp lp)\<rparr>)))"

text \<open>
  The routes that return this dictionary declare \<open>response_model=CustomerWithFeatures\<close>:
  what the endpoint reports is the dictionary read into that schema, which keeps the
  schema's fields and drops every other key. The schema has no field for the risk level,
  the confidence score or the time of the last prediction. (Only this selection of
  fields is modelled; the features are carried as the handler built them.)
\<close>

record CustomerWithFeatures =
  cw_id :: uuid
  cw_name :: string
  cw_email :: "string option"
  cw_phone :: "string option"
  cw_external_id :: "string option"
  cw_features :: "(string \<times> real) list"
  cw_created_at :: datetime
  cw_updated_at :: "datetime option"

definition response_CustomerWithFeatures :: "customer_data \<Rightarrow> CustomerWithFeatures" where
  "response_CustomerWithFeatures data =
     \<lparr>cw_id = cd_id data,
      cw_name = cd_name data,
      cw_email = cd_email data,
      cw_phone = cd_phone data,
      cw_external_id = cd_external_id data,
      cw_features = cd_features data,
      cw_created_at = cd_created_at data,
      cw_updated_at = cd_updated_at data\<rparr>"

text \<open>\<open>GET /customers/{customer_id}\<close>: the handler's result as the route reports it.\<close>

definition get_customer_response :: "uuid \<Rightarrow> session \<Rightarrow> exn + CustomerWithFeatures" where
  "get_customer_response customer_id s =
     (case get_customer customer_id s of
        Inl e \<Rightarrow> Inl e
      | Inr data \<Rightarrow> Inr (response_CustomerWithFeatures data))"

text \<open>
  The loop of \<open>create_customer\<close> over the feature items. \<open>uuid4 k\<close> is the k-th
  identifier drawn in the request. A \<open>float()\<close> that raises ends the loop and the handler.
\<close>

fun add_features ::
  "(string \<Rightarrow> real option) \<Rightarrow> (nat \<Rightarrow> uuid) \<Rightarrow> datetime \<Rightarrow> uuid \<Rightarrow> nat \<Rightarrow> features_dict \<Rightarrow>
   session \<Rightarrow> exn + session" where
  "add_features str_float uuid4 now cid k [] s = Inr s"
| "add_features str_float uuid4 now cid k ((fname, fvalue) # rest) s =
     (if fvalue \<noteq> PNone then
        (case py_float str_float fvalue of
           Inl e \<Rightarrow> Inl e
         | Inr x \<Rightarrow>
             add_features str_float uuid4 now cid (Suc k) rest
               (add_feature
                  \<lparr>f_id = uuid4 k, f_customer_id = cid, feature_name = fname,
                   feature_value = x, recorded_at = now\<rparr> s))
      else add_features str_float uuid4 now cid k rest s)"

text \<open>
  \<open>create_customer\<close> commits the customer row, then adds the feature rows and commits
  again. When the loop raises, nothing catches the exception: the request ends with the
  session as the first commit left it.
\<close>

definition create_customer ::
  "(string \<Rightarrow> real option) \<Rightarrow> (nat \<Rightarrow> uuid) \<Rightarrow> datetime \<Rightarrow> CustomerCreate \<Rightarrow>
   features_dict option \<Rightarrow> session \<Rightarrow> (exn + customer_data) \<times> session" where
  "create_customer str_float uuid4 now customer features s =
     (let db_customer =
            \<lparr>c_id = uuid4 0,
             c_external_id = cc_external_id customer,
             c_name = cc_name customer,
             c_email = cc_email customer,
             c_phone = cc_phone customer,
             c_created_at = now,
             c_updated_at = None\<rparr>;
          s1 = db_commit (add_customer db_customer s)
      in case features of
           None \<Rightarrow> (get_customer (c_id db_customer) s1, s1)
         | Some fs \<Rightarrow>
             (case add_features str_float uuid4 now (c_id db_customer) 1 fs s1 of
                Inl e \<Rightarrow> (Inl e, s1)
              | Inr s2 \<Rightarrow>
                  (let s3 = db_commit s2 in (get_customer (c_id db_customer) s3, s3))))"

text \<open>
  The loop of \<open>update_customer\<close>: a feature that has a row for this customer and name is
  overwritten in that row (value and \<open>recorded_at\<close>); only a feature without one gets a
  new row.
\<close>

fun update_features ::
  "(string \<Rightarrow> real option) \<Rightarrow> (nat \<Rightarrow> uuid) \<Rightarrow> datetime \<Rightarrow> uuid \<Rightarrow> nat \<Rightarrow> features_dict \<Rightarrow>
   session \<Rightarrow> exn + session" where
  "update_features str_float uuid4 now cid k [] s = Inr s"
| "update_features str_float uuid4 now cid k ((fname, fvalue) # rest) s =
     (if fvalue \<noteq> PNone then
        (case first (filter (\<lambda>f. f_customer_id f = cid \<and> feature_name f = fname)
                       (customer_features (view s))) of
           Some existing_feature \<Rightarrow>
             (case py_float str_float fvalue of
                Inl e \<Rightarrow> Inl e
              | Inr x \<Rightarrow>
                  update_features str_float uuid4 now cid k rest
                    (s\<lparr>view := (view s)\<lparr>customer_features :=
                         update_first (\<lambda>f. f_customer_id f = cid \<and> feature_name f = fname)
                           (\<lambda>f. f\<lparr>feature_value := x, recorded_at := now\<rparr>)
                           (customer_features (view s))\<rparr>\<rparr>))
         | None \<Rightarrow>
             (case py_float str_float fvalue of
                Inl e \<Rightarrow> Inl e
              | Inr x \<Rightarrow>
                  update_features str_float uuid4 now cid (Suc k) rest
                    (add_feature
                       \<lparr>f_id = uuid4 k, f_customer_id = cid, feature_name = fname,
                        feature_value = x, recorded_at = now\<rparr> s)))
      else update_features str_float uuid4 now cid k rest s)"

definition update_customer ::
  "(string \<Rightarrow> real option) \<Rightarrow> (nat \<Rightarrow> uuid) \<Rightarrow> datetime \<Rightarrow> uuid \<Rightarrow> CustomerBase \<Rightarrow>
   features_dict option \<Rightarrow> session \<Rightarrow> (exn + customer_data) \<times> session" where
  "update_customer str_float uuid4 now customer_id customer_update features_update s =
     (case get_customer_row customer_id (view s) of
        None \<Rightarrow> (Inl (HTTPException 404 (Text ''Customer not found'')), s)
      | Some db_customer \<Rightarrow>
          (let set_fields = (\<lambda>c.
                 c\<lparr>c_name := cb_name customer_update,
                   c_email := (case cb_email customer_update of None \<Rightarrow> c_email c | Some v \<Rightarrow> v),
                   c_phone := (case cb_phone customer_update of None \<Rightarrow> c_phone c | Some v \<Rightarrow> v),
                   c_updated_at := Some now\<rparr>);
               s1 = db_commit
                      (s\<lparr>view := (view s)\<lparr>customers :=
                           update_first (\<lambda>c. c_id c = customer_id) set_fields
                             (customers (view s))\<rparr>\<rparr>)
           in case features_update of
                None \<Rightarrow> (get_customer customer_id s1, s1)
              | Some fs \<Rightarrow>
                  (case update_features str_float uuid4 now customer_id 0 fs s1 of
                     Inl e \<Rightarrow> (Inl e, s1)
                   | Inr s2 \<Rightarrow>
                       (let s3 = db_commit s2 in (get_customer customer_id s3, s3)))))"

text \<open>
  \<open>delete_customer\<close> bulk-deletes the predictions and the features of the customer,
  deletes the customer row and commits. It deletes nothing from the mitigations table.
  \<open>Customer.mitigations\<close> is a relationship without a delete cascade, so on
  \<open>db.delete(db_customer)\<close> the ORM detaches the customer's mitigations by setting their
  \<open>customer_id\<close> to NULL; the column is \<open>nullable=False\<close>, the database refuses, and the
  IntegrityError leaves the handler uncaught: nothing of the request is committed. (The
  \<open>predictions\<close> relationship is detached the same way, but the bulk delete has left it
  empty.) A customer without mitigations is deleted.
\<close>

definition delete_customer :: "uuid \<Rightarrow> session \<Rightarrow> (exn + unit) \<times> session" where
  "delete_customer customer_id s =
     (case get_customer_row customer_id (view s) of
        None \<Rightarrow> (Inl (HTTPException 404 (Text ''Customer not found'')), s)
      | Some db_customer \<Rightarrow>
          (let v1 = (view s)\<lparr>risk_predictions :=
                       filter (\<lambda>p. p_customer_id p \<noteq> customer_id) (risk_predictions (view s))\<rparr>;
               v2 = v1\<lparr>customer_features :=
                       filter (\<lambda>f. f_customer_id f \<noteq> customer_id) (customer_features v1)\<rparr>
           in if filter (\<lambda>m. m_customer_id m = c_id db_customer) (mitigations v2) \<noteq> [] then
                (Inl (IntegrityError ''mitigations.customer_id''), db_rollback (s\<lparr>view := v2\<rparr>))
              else
                (Inr (),
                 db_commit
                   (s\<lparr>view := v2\<lparr>customers :=
                          filter (\<lambda>c. c_id c \<noteq> c_id db_customer) (customers v2)\<rparr>\<rparr>))))"

section \<open>The risk model (app/models/ml_model.py)\<close>

text \<open>
  The estimator is unpickled from a file that is not part of the repository: what its
  \<open>predict\<close> answers for one row of features (the class label, or an exception) and
  whether it has \<open>predict_proba\<close> are parameters.
\<close>

record Estimator =
  est_predict :: "pyval list \<Rightarrow> exn + int"
  est_predict_proba :: "(pyval list \<Rightarrow> exn + real list) option"

record RiskModel =
  rm_model :: Estimator
  rm_features :: "string list option"

record prediction_result =
  pr_risk_level :: string
  pr_confidence_score :: "real option"
  pr_prediction :: int

definition default_feature_keys :: "string list" where
  "default_feature_keys =
     [''age'', ''income'', ''credit_score'', ''account_balance'',
      ''num_transactions'', ''transaction_frequency'', ''average_transaction_amount'']"

definition preprocess_features :: "RiskModel \<Rightarrow> features_dict \<Rightarrow> pyval list" where
  "preprocess_features rm customer_data =
     (let keys = (case rm_features rm of
                    None \<Rightarrow> default_feature_keys
                  | Some fs \<Rightarrow> if fs = [] then default_feature_keys else fs)
      in map (\<lambda>key. case map_of customer_data key of Some v \<Rightarrow> v | None \<Rightarrow> PInt 0) keys)"

text \<open>\<open>{0: "Low", 1: "Medium", 2: "High"}.get(prediction_result, "Unknown")\<close>\<close>

definition risk_levels_get :: "int \<Rightarrow> string" where
  "risk_levels_get prediction =
     (if prediction = 0 then ''Low''
      else if prediction = 1 then ''Medium''
      else if prediction = 2 then ''High''
      else ''Unknown'')"

definition RiskModel_predict :: "RiskModel \<Rightarrow> features_dict \<Rightarrow> exn + prediction_result" where
  "RiskModel_predict rm customer_data =
     (let features_array = preprocess_features rm customer_data;
          body =
            (case est_predict (rm_model rm) features_array of
               Inl e \<Rightarrow> Inl e
             | Inr prediction \<Rightarrow>
                 (case (case est_predict_proba (rm_model rm) of
                          None \<Rightarrow> Inr None
                        | Some predict_proba \<Rightarrow>
                            (case predict_proba features_array of
                               Inl e \<Rightarrow> Inl e
                             | Inr [] \<Rightarrow> Inl (ValueError (Text ''max() arg is an empty sequence''))
                             | Inr (p # ps) \<Rightarrow> Inr (Some (fold max ps p)))) of
                    Inl e \<Rightarrow> Inl e
                  | Inr confidence_score \<Rightarrow>
                      Inr \<lparr>pr_risk_level = risk_levels_get prediction,
                           pr_confidence_score = confidence_score,
                           pr_prediction = prediction\<rparr>))
      in case body of
           Inl e \<Rightarrow> Inl (ValueError (Wrap ''Failed to generate prediction: '' e))
         | Inr r \<Rightarrow> Inr r)"

section \<open>Prediction endpoints (app/api/endpoints/predictions.py)\<close>

record RiskPredictionCreate =
  rpc_customer_id :: uuid
  rpc_customer_features :: features_dict

record RiskDistribution =
  low_risk_count :: nat
  medium_risk_count :: nat
  high_risk_count :: nat
  total_customers :: nat
  last_updated :: "datetime option"

text \<open>
  \<open>customer_features.dict()\<close>: every declared field of \<open>CustomerFeatures\<close>, with \<open>None\<close>
  for a field the body did not set, followed by the extra fields of the body. A parsed
  \<open>CustomerFeatures\<close> is given by the items the body set.
\<close>

definition CustomerFeatures_fields :: "string list" where
  "CustomerFeatures_fields =
     [''age'', ''income'', ''credit_score'', ''account_balance'',
      ''num_transactions'', ''transaction_frequency'', ''average_transaction_amount'']"

definition CustomerFeatures_dict :: "features_dict \<Rightarrow> features_dict" where
  "CustomerFeatures_dict body =
     map (\<lambda>field. (field, case map_of body field of Some v \<Rightarrow> v | None \<Rightarrow> PNone))
       CustomerFeatures_fields @
     filter (\<lambda>item. fst item \<notin> set CustomerFeatures_fields) body"

text \<open>
  The handler has no clause that lets its own HTTPException through: the 404 for an absent
  customer is caught by \<open>except Exception\<close> and leaves as a 500. The endpoint stores the
  prediction only; it writes no feature row.
\<close>

definition predict_customer_risk ::
  "RiskModel \<Rightarrow> uuid \<Rightarrow> datetime \<Rightarrow> RiskPredictionCreate \<Rightarrow> session \<Rightarrow>
   (exn + RiskPredictionRecord) \<times> session" where
  "predict_customer_risk risk_model uuid4 now prediction_data s =
     (case get_customer_row (rpc_customer_id prediction_data) (view s) of
        None \<Rightarrow>
          (Inl (HTTPException 500
             (Wrap ''Prediction error: '' (HTTPException 404 (Text ''Customer not found'')))), s)
      | Some customer \<Rightarrow>
          (case RiskModel_predict risk_model
                  (CustomerFeatures_dict (rpc_customer_features prediction_data)) of
             Inl e \<Rightarrow> (Inl (HTTPException 400 (Wrap [] e)), s)
           | Inr r \<Rightarrow>
               (let db_prediction =
                      \<lparr>p_id = uuid4,
                       p_customer_id = rpc_customer_id prediction_data,
                       p_risk_level = pr_risk_level r,
                       p_confidence_score = pr_confidence_score r,
                       prediction_timestamp = now\<rparr>
                in (Inr db_prediction, db_commit (add_prediction db_prediction s)))))"

text \<open>
  The statistics endpoint, on the database of the given dialect; the total is the sum of
  the three counts. (Its \<open>except\<close> clause re-labels failures of the database driver only.)
\<close>

definition get_risk_distribution :: "dialect \<Rightarrow> session \<Rightarrow> RiskDistribution" where
  "get_risk_distribution dia s =
     (let subquery = latest_levels dia (view s);
          low_risk = count_level ''Low'' subquery;
          medium_risk = count_level ''Medium'' subquery;
          high_risk = count_level ''High'' subquery;
          total = low_risk + medium_risk + high_risk
      in \<lparr>low_risk_count = low_risk,
          medium_risk_count = medium_risk,
          high_risk_count = high_risk,
          total_customers = total,
          last_updated = None\<rparr>)"

section \<open>The risk service (app/services/risk_service.py)\<close>

text \<open>
  The loop of the service's predict over the feature items: numbers only. \<open>float()\<close> can
  still raise on them (an int beyond the doubles), which ends the loop and the call. The
  guard lets no string through, so \<open>float\<close> never consults the string parser here.
\<close>

fun store_features ::
  "(nat \<Rightarrow> uuid) \<Rightarrow> datetime \<Rightarrow> uuid \<Rightarrow> nat \<Rightarrow> features_dict \<Rightarrow> session \<Rightarrow> exn + session" where
  "store_features uuid4 now cid k [] s = Inr s"
| "store_features uuid4 now cid k ((fname, fvalue) # rest) s =
     (if fvalue \<noteq> PNone \<and> is_number fvalue then
        (case py_float (\<lambda>t. None) fvalue of
           Inl e \<Rightarrow> Inl e
         | Inr x \<Rightarrow>
             store_features uuid4 now cid (Suc k) rest
               (add_feature
                  \<lparr>f_id = uuid4 k, f_customer_id = cid, feature_name = fname,
                   feature_value = x, recorded_at = now\<rparr> s))
      else store_features uuid4 now cid k rest s)"

text \<open>
  \<open>RiskService.predict_customer_risk\<close>: the prediction and the feature rows are added to
  the session and committed together, once, after the loop. An exception of the loop
  leaves the call before that commit.
\<close>

definition service_predict_customer_risk ::
  "RiskModel \<Rightarrow> (nat \<Rightarrow> uuid) \<Rightarrow> datetime \<Rightarrow> uuid \<Rightarrow> features_dict \<Rightarrow> session \<Rightarrow>
   (exn + RiskPredictionRecord) \<times> session" where
  "service_predict_customer_risk risk_model uuid4 now customer_id features s =
     (case get_customer_row customer_id (view s) of
        None \<Rightarrow> (Inl (ValueError (Text ''Customer not found'')), s)
      | Some customer \<Rightarrow>
          (case RiskModel_predict risk_model features of
             Inl e \<Rightarrow> (Inl e, s)
           | Inr r \<Rightarrow>
               (let db_prediction =
                      \<lparr>p_id = uuid4 0,
                       p_customer_id = customer_id,
                       p_risk_level = pr_risk_level r,
                       p_confidence_score = pr_confidence_score r,
                       prediction_timestamp = now\<rparr>;
                    s1 = add_prediction db_prediction s
                in case store_features uuid4 now customer_id 1 features s1 of
                     Inl e \<Rightarrow> (Inl e, db_rollback s1)
                   | Inr s2 \<Rightarrow> (Inr db_prediction, db_commit s2))))"

text \<open>
  The service's distribution, on the database of the given dialect; the total is the
  number of customer rows.
\<close>

definition service_get_risk_distribution :: "dialect \<Rightarrow> datetime \<Rightarrow> session \<Rightarrow> RiskDistribution" where
  "service_get_risk_distribution dia now s =
     (let subquery = latest_levels dia (view s);
          low_risk = count_level ''Low'' subquery;
          medium_risk = count_level ''Medium'' subquery;
          high_risk = count_level ''High'' subquery;
          total = length (customers (view s))
      in \<lparr>low_risk_count = low_risk,
          medium_risk_count = medium_risk,
          high_risk_count = high_risk,
          total_customers = total,
          last_updated = Some now\<rparr>)"

section \<open>Derived notions and example states\<close>

text \<open>The ledger's current risk level of a customer: the level of the latest prediction.\<close>

definition current_risk_level :: "uuid \<Rightarrow> db \<Rightarrow> string option" where
  "current_risk_level cid d = map_option p_risk_level (latest_prediction cid d)"

definition high_risk_detail :: detail where
  "high_risk_detail = Text ''Mitigations can only be applied to high-risk customers''"

text \<open>
  A body asking for a Flag on customer 7 with level High, and one with level Low; a
  state where customer 7 has a single Low prediction.
\<close>

definition flag_body :: "string \<Rightarrow> MitigationCreate" where
  "flag_body l =
     \<lparr>mc_customer_id = 7, mc_risk_level = l, mc_mitigation_type = ''Flag'',
      mc_description = ''review'', mc_assigned_to = None, mc_due_date = None\<rparr>"

definition jane :: Customer where
  "jane = \<lparr>c_id = 7, c_external_id = None, c_name = ''Jane Doe'', c_email = None,
           c_phone = None, c_created_at = 0, c_updated_at = None\<rparr>"

definition prediction_of :: "uuid \<Rightarrow> uuid \<Rightarrow> string \<Rightarrow> datetime \<Rightarrow> RiskPredictionRecord" where
  "prediction_of pid cid l t =
     \<lparr>p_id = pid, p_customer_id = cid, p_risk_level = l, p_confidence_score = None,
      prediction_timestamp = t\<rparr>"

definition empty_db :: db where
  "empty_db = \<lparr>customers = [], customer_features = [], risk_predictions = [], mitigations = []\<rparr>"

definition jane_low_db :: db where
  "jane_low_db = empty_db\<lparr>customers := [jane], risk_predictions := [prediction_of 2 7 ''Low'' 3]\<rparr>"


definition bob :: Customer where
  "bob = \<lparr>c_id = 8, c_external_id = None, c_name = ''Bob Roe'', c_email = None,
          c_phone = None, c_created_at = 0, c_updated_at = None\<rparr>"

definition jane_db :: db where
  "jane_db = empty_db\<lparr>customers := [jane]\<rparr>"

text \<open>Jane with a Low prediction, and Bob, who has none.\<close>

definition jane_bob_db :: db where
  "jane_bob_db = jane_low_db\<lparr>customers := [jane, bob]\<rparr>"

text \<open>An estimator that answers the class label 3 for every row, and no probabilities.\<close>

definition label3_model :: RiskModel where
  "label3_model =
     \<lparr>rm_model = \<lparr>est_predict = (\<lambda>row. Inr 3), est_predict_proba = None\<rparr>,
      rm_features = None\<rparr>"

definition unknown_prediction :: RiskPredictionRecord where
  "unknown_prediction = prediction_of 2 7 ''Unknown'' 5"

text \<open>What is stored after one predict request for Jane answered by that estimator.\<close>

definition jane_unknown_db :: db where
  "jane_unknown_db =
     stored (snd (predict_customer_risk label3_model 2 5
                    \<lparr>rpc_customer_id = 7, rpc_customer_features = []\<rparr> (open_session jane_db)))"

text \<open>
  Jane with one feature, one High prediction and one mitigation: the state in which a
  customer with all three kinds of record is deleted.
\<close>

definition credit_score_550 :: CustomerFeatureRecord where
  "credit_score_550 =
     \<lparr>f_id = 3, f_customer_id = 7, feature_name = ''credit_score'', feature_value = 550,
      recorded_at = 2\<rparr>"

definition jane_flag :: MitigationRecord where
  "jane_flag =
     \<lparr>m_id = 4, m_customer_id = 7, m_risk_level = ''High'', m_mitigation_type = ''Flag'',
      m_description = ''review'', m_assigned_to = None, m_due_date = None,
      m_created_at = 6, m_updated_at = None, m_status = ''Pending''\<rparr>"

definition jane_full_db :: db where
  "jane_full_db =
     \<lparr>customers = [jane], customer_features = [credit_score_550],
      risk_predictions = [prediction_of 2 7 ''High'' 5], mitigations = [jane_flag]\<rparr>"

text \<open>An estimator that answers High (label 2) with probabilities 0.1 and 0.9.\<close>

definition high_model :: RiskModel where
  "high_model =
     \<lparr>rm_model = \<lparr>est_predict = (\<lambda>row. Inr 2),
                   est_predict_proba = Some (\<lambda>row. Inr [1 / 10, 9 / 10])\<rparr>,
      rm_features = None\<rparr>"

definition jane_features :: features_dict where
  "jane_features = [(''credit_score'', PInt 550), (''income'', PFloat 25000)]"

definition high_prediction :: RiskPredictionRecord where
  "high_prediction =
     \<lparr>p_id = 20, p_customer_id = 7, p_risk_level = ''High'', p_confidence_score = Some (9 / 10),
      prediction_timestamp = 5\<rparr>"

definition jane_request :: RiskPredictionCreate where
  "jane_request = \<lparr>rpc_customer_id = 7, rpc_customer_features = jane_features\<rparr>"

definition jane_feature_rows :: "CustomerFeatureRecord list" where
  "jane_feature_rows =
     [\<lparr>f_id = 21, f_customer_id = 7, feature_name = ''credit_score'', feature_value = 550,
       recorded_at = 5\<rparr>,
      \<lparr>f_id = 22, f_customer_id = 7, feature_name = ''income'', feature_value = 25000,
       recorded_at = 5\<rparr>]"

text \<open>
  A feature row stores a dictionary item for a customer: it carries the customer, the
  item's name, \<open>float\<close> of the item's value and the time of the write.
\<close>

definition stores_item ::
  "(string \<Rightarrow> real option) \<Rightarrow> uuid \<Rightarrow> datetime \<Rightarrow> CustomerFeatureRecord \<Rightarrow> string \<times> pyval \<Rightarrow> bool" where
  "stores_item str_float cid now f item \<longleftrightarrow>
     f_customer_id f = cid \<and> feature_name f = fst item \<and>
     py_float str_float (snd item) = Inr (feature_value f) \<and> recorded_at f = now"

text \<open>The number of feature rows of a (customer, feature name) pair.\<close>

definition feature_count :: "uuid \<Rightarrow> string \<Rightarrow> db \<Rightarrow> nat" where
  "feature_count cid n d =
     length (filter (\<lambda>f. f_customer_id f = cid \<and> feature_name f = n) (customer_features d))"

text \<open>The names a feature dictionary gives a value other than \<open>None\<close>.\<close>

definition written_names :: "features_dict \<Rightarrow> string set" where
  "written_names fs = fst ` set (filter (\<lambda>item. snd item \<noteq> PNone) fs)"

text \<open>An update of Jane that sends her name and a new credit score.\<close>

definition jane_update :: CustomerBase where
  "jane_update = \<lparr>cb_name = ''Jane Doe'', cb_email = None, cb_phone = None\<rparr>"

definition score_600 :: features_dict where
  "score_600 = [(''credit_score'', PInt 600)]"

text \<open>
  A new customer sent with an age and with an extra field that holds a JSON array,
  and the row the request stores for her.
\<close>

definition ann_create :: CustomerCreate where
  "ann_create = \<lparr>cc_name = ''Ann Poe'', cc_email = None, cc_phone = None, cc_external_id = None\<rparr>"

definition ann_features :: features_dict where
  "ann_features = [(''age'', PInt 30), (''tags'', POther)]"

definition ann :: Customer where
  "ann = \<lparr>c_id = 40, c_external_id = None, c_name = ''Ann Poe'', c_email = None,
          c_phone = None, c_created_at = 9, c_updated_at = None\<rparr>"

text \<open>
  The foreign key of the predictions table (\<open>ForeignKey("customers.id")\<close>): every
  prediction belongs to a customer row. A session respects it when both its stored state
  and its view do.
\<close>

definition predictions_have_customers :: "db \<Rightarrow> bool" where
  "predictions_have_customers d \<longleftrightarrow>
     (\<forall>p \<in> set (risk_predictions d). p_customer_id p \<in> c_id ` set (customers d))"

definition session_ok :: "session \<Rightarrow> bool" where
  "session_ok s \<longleftrightarrow> predictions_have_customers (stored s) \<and> predictions_have_customers (view s)"

text \<open>Jane with a Low prediction and a later High one, and Bob, who has none.\<close>

definition jane_two_levels_db :: db where
  "jane_two_levels_db =
     empty_db\<lparr>customers := [jane, bob],
              risk_predictions := [prediction_of 2 7 ''Low'' 3, prediction_of 3 7 ''High'' 5]\<rparr>"

text \<open>The mitigation a High request for Jane creates at time 6 under the fresh id 12.\<close>

definition jane_flag_12 :: MitigationRecord where
  "jane_flag_12 = jane_flag\<lparr>m_id := 12\<rparr>"

text \<open>An int beyond the doubles, and a feature dictionary that holds it after an age.\<close>

definition huge :: int where
  "huge = 2 ^ 1024"

definition huge_features :: features_dict where
  "huge_features = [(''age'', PInt 30), (''balance_cents'', PInt huge)]"
section \<open>Facts about the queries\<close>

lemma first_eq_None: "first xs = None \<longleftrightarrow> xs = []"
  by (simp add: first_def split: list.splits)

lemma first_Some_mem: "first xs = Some x \<Longrightarrow> x \<in> set xs"
  by (auto simp: first_def split: list.splits)

lemma first_filter_Some: "first (filter P xs) = Some x \<Longrightarrow> x \<in> set xs \<and> P x"
  using first_Some_mem [of "filter P xs" x] by simp

lemma first_filter_None: "first (filter P xs) = None \<longleftrightarrow> (\<forall>x \<in> set xs. \<not> P x)"
  by (simp add: first_eq_None filter_empty_conv)

text \<open>The first row of a descending order carries the greatest key.\<close>

lemma first_order_by_desc:
  assumes "first (order_by_desc key rows) = Some r"
  shows "r \<in> set rows \<and> (\<forall>q \<in> set rows. key q \<le> key r)"
proof -
  from assms obtain rest where rv: "rev (sort_key key (rev rows)) = r # rest"
    by (auto simp: first_def order_by_desc_def split: list.splits)
  then have sk: "sort_key key (rev rows) = rev rest @ [r]"
    by (simp add: rev_swap)
  have "sorted (map key (sort_key key (rev rows)))"
    by (rule sorted_sort_key)
  with sk have greatest: "\<forall>q \<in> set (rev rest). key q \<le> key r"
    by (simp add: sorted_append)
  have "set rows = set (sort_key key (rev rows))"
    by simp
  also have "\<dots> = insert r (set rest)"
    by (simp add: sk)
  finally have "set rows = insert r (set rest)" .
  with greatest show ?thesis by auto
qed

lemma first_order_by_desc_None: "first (order_by_desc key rows) = None \<longleftrightarrow> rows = []"
proof -
  have "length (order_by_desc key rows) = length rows"
    by (simp add: order_by_desc_def)
  then have "order_by_desc key rows = [] \<longleftrightarrow> rows = []"
    by (metis length_0_conv)
  then show ?thesis by (simp add: first_eq_None)
qed

lemma latest_prediction_Some:
  assumes "latest_prediction cid d = Some p"
  shows "p \<in> set (risk_predictions d) \<and> p_customer_id p = cid \<and>
         (\<forall>q \<in> set (risk_predictions d).
            p_customer_id q = cid \<longrightarrow> prediction_timestamp q \<le> prediction_timestamp p)"
  using first_order_by_desc [OF assms [unfolded latest_prediction_def]] by auto

lemma latest_prediction_None:
  "latest_prediction cid d = None \<longleftrightarrow> (\<forall>p \<in> set (risk_predictions d). p_customer_id p \<noteq> cid)"
  by (simp add: latest_prediction_def first_order_by_desc_None filter_empty_conv)

lemma current_risk_level_None:
  "current_risk_level cid d = None \<longleftrightarrow> (\<forall>p \<in> set (risk_predictions d). p_customer_id p \<noteq> cid)"
  by (simp add: current_risk_level_def latest_prediction_None)

text \<open>The subquery has one row for every customer id in the prediction table.\<close>

lemma latest_levels_eq:
  "latest_levels PostgreSQL d =
     map (\<lambda>cid. (cid, the (current_risk_level cid d)))
       (sort (remdups (map p_customer_id (risk_predictions d))))"
proof -
  have "List.map_filter
          (\<lambda>cid. map_option (\<lambda>p. (cid, p_risk_level p)) (latest_prediction cid d)) cs =
        map (\<lambda>cid. (cid, the (current_risk_level cid d))) cs"
    if "set cs \<subseteq> p_customer_id ` set (risk_predictions d)" for cs
    using that
  proof (induction cs)
    case Nil
    then show ?case by (simp add: List.map_filter_simps)
  next
    case (Cons c cs)
    then have "latest_prediction c d \<noteq> None"
      by (auto simp: latest_prediction_None)
    then obtain p where "latest_prediction c d = Some p" by auto
    with Cons show ?case
      by (simp add: List.map_filter_simps current_risk_level_def)
  qed
  then show ?thesis by (simp add: latest_levels.simps)
qed

lemma length_latest_levels:
  "length (latest_levels PostgreSQL d) = card (p_customer_id ` set (risk_predictions d))"
proof -
  have "length (latest_levels PostgreSQL d) = length (remdups (map p_customer_id (risk_predictions d)))"
    by (simp add: latest_levels_eq)
  also have "\<dots> = card (set (map p_customer_id (risk_predictions d)))"
    by (simp add: length_remdups_card_conv)
  finally show ?thesis by simp
qed

lemma latest_levels_mem:
  "(cid, l) \<in> set (latest_levels PostgreSQL d) \<longleftrightarrow> current_risk_level cid d = Some l"
proof
  assume "(cid, l) \<in> set (latest_levels PostgreSQL d)"
  then have "cid \<in> p_customer_id ` set (risk_predictions d)" and l: "l = the (current_risk_level cid d)"
    by (auto simp: latest_levels_eq)
  then have "current_risk_level cid d \<noteq> None"
    by (auto simp: current_risk_level_None)
  with l show "current_risk_level cid d = Some l" by auto
next
  assume a: "current_risk_level cid d = Some l"
  then have "cid \<in> p_customer_id ` set (risk_predictions d)"
    using current_risk_level_None [of cid d] by auto
  with a show "(cid, l) \<in> set (latest_levels PostgreSQL d)"
    by (auto simp: latest_levels_eq)
qed

lemma count_level_three:
  assumes "\<forall>r \<in> set rows. snd r \<in> {''Low'', ''Medium'', ''High''}"
  shows "count_level ''Low'' rows + count_level ''Medium'' rows + count_level ''High'' rows
         = length rows"
  using assms by (induction rows) (auto simp: count_level_def)

lemma count_level_three_le:
  "count_level ''Low'' rows + count_level ''Medium'' rows + count_level ''High'' rows
     \<le> length rows"
  by (induction rows) (auto simp: count_level_def)

lemma latest_levels_valid:
  assumes "\<forall>cid l. current_risk_level cid d = Some l \<longrightarrow> l \<in> {''Low'', ''Medium'', ''High''}"
  shows "\<forall>r \<in> set (latest_levels PostgreSQL d). snd r \<in> {''Low'', ''Medium'', ''High''}"
proof
  fix r assume "r \<in> set (latest_levels PostgreSQL d)"
  then have "current_risk_level (fst r) d = Some (snd r)"
    using latest_levels_mem [of "fst r" "snd r" d] by simp
  with assms show "snd r \<in> {''Low'', ''Medium'', ''High''}"
    by blast
qed

lemma RiskModel_predict_label3:
  "RiskModel_predict label3_model fs =
     Inr \<lparr>pr_risk_level = ''Unknown'', pr_confidence_score = None, pr_prediction = 3\<rparr>"
  by (simp add: RiskModel_predict_def label3_model_def risk_levels_get_def Let_def)

lemma jane_unknown_db_eq:
  "jane_unknown_db = jane_db\<lparr>risk_predictions := [unknown_prediction]\<rparr>"
  by (simp add: jane_unknown_db_def predict_customer_risk_def RiskModel_predict_label3
        get_customer_row_def first_def open_session_def jane_db_def empty_db_def jane_def
        db_commit_def add_prediction_def unknown_prediction_def prediction_of_def Let_def)

lemma RiskModel_predict_high:
  "RiskModel_predict high_model fs =
     Inr \<lparr>pr_risk_level = ''High'', pr_confidence_score = Some (9 / 10), pr_prediction = 2\<rparr>"
  by (simp add: RiskModel_predict_def high_model_def risk_levels_get_def Let_def)

section \<open>Facts about float\<close>

lemma less_power_bit_length: "n < 2 ^ bit_length n"
proof (induction n rule: bit_length.induct)
  case (1 n)
  show ?case
  proof (cases "n = 0")
    case True
    then show ?thesis by simp
  next
    case False
    with "1" have "n div 2 < 2 ^ bit_length (n div 2)" by simp
    then have "n < 2 * 2 ^ bit_length (n div 2)" by linarith
    with False show ?thesis
      by (subst bit_length.simps) simp
  qed
qed

lemma power_bit_length_le: "n \<noteq> 0 \<Longrightarrow> 2 ^ (bit_length n - 1) \<le> n"
proof (induction n rule: bit_length.induct)
  case (1 n)
  show ?case
  proof (cases "n div 2 = 0")
    case True
    with "1.prems" have "bit_length n = 1"
      by (simp add: bit_length.simps [of n] bit_length.simps [of 0])
    with "1.prems" show ?thesis by simp
  next
    case False
    with "1" have "2 ^ (bit_length (n div 2) - 1) \<le> n div 2" by simp
    then have le: "2 * 2 ^ (bit_length (n div 2) - 1) \<le> n" by linarith
    from False have "bit_length (n div 2) \<noteq> 0"
      by (simp add: bit_length.simps [of "n div 2"])
    then obtain j where j: "bit_length (n div 2) = Suc j"
      by (cases "bit_length (n div 2)") auto
    have "bit_length n = Suc (bit_length (n div 2))"
      using "1.prems" by (simp add: bit_length.simps [of n])
    with le j show ?thesis by simp
  qed
qed

lemma bit_length_le: "n < 2 ^ k \<Longrightarrow> bit_length n \<le> k"
proof (induction k arbitrary: n)
  case 0
  then show ?case by (simp add: bit_length.simps)
next
  case (Suc k)
  then have "n div 2 < 2 ^ k" by simp
  from Suc.IH [OF this] show ?case
    by (subst bit_length.simps) simp
qed

text \<open>An int of at most 53 bits is its own double.\<close>

lemma nearest_double_small:
  assumes "a < 2 ^ 53"
  shows "nearest_double a = Some a"
proof -
  have "(2::nat) ^ 53 \<le> 2 ^ 1024"
    by (rule power_increasing) simp_all
  with assms have "a < 2 ^ 1024" by (rule less_le_trans)
  then have "\<not> 2 ^ 1024 \<le> a" by (simp only: not_le)
  with bit_length_le [OF assms] show ?thesis
    unfolding nearest_double_def Let_def by (simp only: if_True if_False)
qed

lemma round_half_even_ge: "(a div 2 ^ sh) * 2 ^ sh \<le> round_half_even a sh"
  by (simp add: round_half_even_def Let_def)

text \<open>From 2 to the 1024 on there is no double.\<close>

lemma nearest_double_overflow:
  assumes "2 ^ 1024 \<le> a"
  shows "nearest_double a = None"
proof -
  define n where "n = bit_length a"
  define e :: nat where "e = 1024"
  from assms have a: "2 ^ e \<le> a" unfolding e_def .
  from a less_power_bit_length [of a] have "(2::nat) ^ e < 2 ^ n"
    unfolding n_def by (rule le_less_trans)
  then have n: "e < n" by (simp only: power_strict_increasing_iff rel_simps)
  then have n53: "53 < n" unfolding e_def by linarith
  then have big: "\<not> n \<le> 53" by linarith
  define sh where "sh = n - 53"
  from n53 have sh: "n = 53 + sh" unfolding sh_def by linarith
  from n sh have esh: "e \<le> 52 + sh" by linarith
  have "(0::nat) < 2 ^ e" by (rule zero_less_power) simp
  from this a have "0 < a" by (rule less_le_trans)
  then have "a \<noteq> 0" by simp
  from power_bit_length_le [OF this] have "2 ^ (n - 1) \<le> a"
    unfolding n_def .
  moreover from sh have "n - 1 = sh + 52" by linarith
  ultimately have "(2::nat) ^ sh * 2 ^ 52 \<le> a" by (simp only: power_add)
  then have "(2 ^ sh * 2 ^ 52) div 2 ^ sh \<le> a div 2 ^ sh"
    by (rule div_le_mono)
  moreover have "((2::nat) ^ sh * 2 ^ 52) div 2 ^ sh = 2 ^ 52"
    by (rule nonzero_mult_div_cancel_left) simp
  ultimately have "(2::nat) ^ 52 \<le> a div 2 ^ sh" by (simp only:)
  then have "(2::nat) ^ 52 * 2 ^ sh \<le> (a div 2 ^ sh) * 2 ^ sh"
    by (rule mult_le_mono1)
  also have "\<dots> \<le> round_half_even a sh" by (rule round_half_even_ge)
  finally have "(2::nat) ^ (52 + sh) \<le> round_half_even a sh"
    by (simp only: power_add)
  moreover from esh have "(2::nat) ^ e \<le> 2 ^ (52 + sh)"
    by (rule power_increasing) simp
  ultimately have "2 ^ e \<le> round_half_even a sh" by (rule order_trans [rotated])
  then have "2 ^ 1024 \<le> round_half_even a (bit_length a - 53)"
    unfolding e_def sh_def n_def .
  with big show ?thesis
    unfolding nearest_double_def Let_def n_def by (simp only: if_True if_False)
qed

lemma int_float_small:
  assumes "\<bar>i\<bar> < 2 ^ 53"
  shows "int_float i = Inr (of_int i)"
proof -
  from assms have "nat \<bar>i\<bar> < 2 ^ 53"
    by (simp add: nat_less_iff)
  from nearest_double_small [OF this] show ?thesis
    by (simp add: int_float_def)
qed

lemma int_float_huge:
  "int_float huge = Inl (OverflowError (Text ''int too large to convert to float''))"
proof -
  have "huge = int (2 ^ 1024)"
    unfolding huge_def by (simp only: of_nat_power of_nat_numeral)
  then have "nat \<bar>huge\<bar> = 2 ^ 1024"
    by (simp only: abs_of_nat nat_int)
  then have "2 ^ 1024 \<le> nat \<bar>huge\<bar>" by (simp only: order_refl)
  from nearest_double_overflow [OF this] show ?thesis
    by (simp only: int_float_def option.case)
qed

lemma py_float_number: "is_number v \<Longrightarrow> py_float str_float v = py_float (\<lambda>t. None) v"
  by (cases v) simp_all

section \<open>Facts about the write loops\<close>

lemma store_features_appends:
  assumes "store_features uuid4 now cid k fs s = Inr s'"
  shows "\<exists>rows. s' = s\<lparr>view := (view s)\<lparr>customer_features := customer_features (view s) @ rows\<rparr>\<rparr> \<and>
           list_all2 (stores_item str_float cid now) rows
             (filter (\<lambda>item. is_number (snd item)) fs)"
  using assms
proof (induction fs arbitrary: s k)
  case Nil
  then show ?case by simp
next
  case (Cons item fs)
  obtain fname fvalue where item: "item = (fname, fvalue)" by (cases item)
  show ?case
  proof (cases "is_number fvalue")
    case False
    with Cons item show ?thesis by simp
  next
    case True
    then have some: "fvalue \<noteq> PNone" by auto
    with Cons.prems True item obtain x where x: "py_float (\<lambda>t. None) fvalue = Inr x"
      by (auto split: sum.splits)
    let ?row = "\<lparr>f_id = uuid4 k, f_customer_id = cid, feature_name = fname,
                 feature_value = x, recorded_at = now\<rparr>"
    from Cons.prems True some x item
    have "store_features uuid4 now cid (Suc k) fs (add_feature ?row s) = Inr s'"
      by simp
    from Cons.IH [OF this] obtain rows where
      rows: "s' = (add_feature ?row s)\<lparr>view := (view (add_feature ?row s))
                 \<lparr>customer_features := customer_features (view (add_feature ?row s)) @ rows\<rparr>\<rparr>"
      and all: "list_all2 (stores_item str_float cid now) rows
                  (filter (\<lambda>item. is_number (snd item)) fs)"
      by blast
    have "s' = s\<lparr>view := (view s)\<lparr>customer_features := customer_features (view s) @ (?row # rows)\<rparr>\<rparr>"
      unfolding rows by (simp add: add_feature_def)
    moreover have "list_all2 (stores_item str_float cid now) (?row # rows)
                     (filter (\<lambda>item. is_number (snd item)) (item # fs))"
      using True all x py_float_number [OF True, of str_float]
      by (simp add: item stores_item_def)
    ultimately show ?thesis by blast
  qed
qed

lemma add_features_appends:
  assumes "add_features str_float uuid4 now cid k fs s = Inr s'"
  shows "\<exists>rows. s' = s\<lparr>view := (view s)\<lparr>customer_features := customer_features (view s) @ rows\<rparr>\<rparr> \<and>
           list_all2 (stores_item str_float cid now) rows (filter (\<lambda>item. snd item \<noteq> PNone) fs)"
  using assms
proof (induction fs arbitrary: s k)
  case Nil
  then show ?case by simp
next
  case (Cons item fs)
  obtain fname fvalue where item: "item = (fname, fvalue)" by (cases item)
  show ?case
  proof (cases "fvalue = PNone")
    case True
    with Cons item show ?thesis by simp
  next
    case False
    with Cons.prems item obtain x where x: "py_float str_float fvalue = Inr x"
      by (auto split: sum.splits)
    let ?row = "\<lparr>f_id = uuid4 k, f_customer_id = cid, feature_name = fname,
                 feature_value = x, recorded_at = now\<rparr>"
    from Cons.prems False x item
    have "add_features str_float uuid4 now cid (Suc k) fs (add_feature ?row s) = Inr s'"
      by simp
    from Cons.IH [OF this] obtain rows where
      rows: "s' = (add_feature ?row s)\<lparr>view := (view (add_feature ?row s))
                 \<lparr>customer_features := customer_features (view (add_feature ?row s)) @ rows\<rparr>\<rparr>"
      and all: "list_all2 (stores_item str_float cid now) rows
                  (filter (\<lambda>item. snd item \<noteq> PNone) fs)"
      by blast
    have "s' = s\<lparr>view := (view s)\<lparr>customer_features := customer_features (view s) @ (?row # rows)\<rparr>\<rparr>"
      unfolding rows by (simp add: add_feature_def)
    moreover have "list_all2 (stores_item str_float cid now) (?row # rows)
                     (filter (\<lambda>item. snd item \<noteq> PNone) (item # fs))"
      using False all x by (simp add: item stores_item_def)
    ultimately show ?thesis by blast
  qed
qed

lemma length_filter_update_first:
  assumes "\<And>x. Q (g x) = Q x"
  shows "length (filter Q (update_first P g xs)) = length (filter Q xs)"
  using assms by (induction xs) auto

lemma update_first_keeps:
  "x \<in> set xs \<Longrightarrow> \<not> P x \<Longrightarrow> x \<in> set (update_first P g xs)"
  by (induction xs) auto

lemma update_first_writes:
  "x \<in> set xs \<Longrightarrow> P x \<Longrightarrow> \<exists>y \<in> set xs. P y \<and> g y \<in> set (update_first P g xs)"
  by (induction xs) auto

lemma feature_count_zero:
  "feature_count cid n d = 0 \<longleftrightarrow>
     first (filter (\<lambda>f. f_customer_id f = cid \<and> feature_name f = n) (customer_features d)) = None"
  by (simp add: feature_count_def first_eq_None)

text \<open>
  The update loop never adds a row for a pair that has one, and adds exactly one for a
  written name that has none.
\<close>

lemma update_features_count:
  assumes "update_features str_float uuid4 now cid k fs s = Inr s'"
  shows "feature_count c n (view s') =
           (if feature_count c n (view s) = 0 \<and> c = cid \<and> n \<in> written_names fs then 1
            else feature_count c n (view s))"
  using assms
proof (induction fs arbitrary: s k)
  case Nil
  then show ?case by (simp add: written_names_def)
next
  case (Cons item fs)
  obtain fname fvalue where item: "item = (fname, fvalue)" by (cases item)
  show ?case
  proof (cases "fvalue = PNone")
    case True
    with Cons item show ?thesis by (simp add: written_names_def)
  next
    case False
    with Cons.prems item obtain x where x: "py_float str_float fvalue = Inr x"
      by (auto split: sum.splits option.splits)
    let ?P = "\<lambda>f. f_customer_id f = cid \<and> feature_name f = fname"
    have names: "written_names (item # fs) = insert fname (written_names fs)"
      using False by (simp add: written_names_def item)
    show ?thesis
    proof (cases "first (filter ?P (customer_features (view s)))")
      case (Some existing)
      let ?s1 = "s\<lparr>view := (view s)\<lparr>customer_features :=
                    update_first ?P (\<lambda>f. f\<lparr>feature_value := x, recorded_at := now\<rparr>)
                      (customer_features (view s))\<rparr>\<rparr>"
      from Cons.prems False x Some item
      have run: "update_features str_float uuid4 now cid k fs ?s1 = Inr s'"
        by simp
      have same: "feature_count c' n' (view ?s1) = feature_count c' n' (view s)" for c' n'
        by (simp add: feature_count_def length_filter_update_first)
      have pos: "feature_count cid fname (view s) \<noteq> 0"
        using Some by (simp add: feature_count_zero)
      from Cons.IH [OF run] same pos names show ?thesis
        by auto
    next
      case None
      let ?row = "\<lparr>f_id = uuid4 k, f_customer_id = cid, feature_name = fname,
                   feature_value = x, recorded_at = now\<rparr>"
      from Cons.prems False x None item
      have run: "update_features str_float uuid4 now cid (Suc k) fs (add_feature ?row s) = Inr s'"
        by simp
      have more: "feature_count c' n' (view (add_feature ?row s)) =
                    feature_count c' n' (view s) + (if c' = cid \<and> n' = fname then 1 else 0)"
        for c' n'
        by (auto simp: feature_count_def add_feature_def)
      have zero: "feature_count cid fname (view s) = 0"
        using None by (simp add: feature_count_zero)
      from Cons.IH [OF run] more zero names show ?thesis
        by auto
    qed
  qed
qed

text \<open>Rows of other customers or of names the dictionary does not hold are not touched.\<close>

lemma update_features_keeps:
  assumes "update_features str_float uuid4 now cid k fs s = Inr s'"
    and "f \<in> set (customer_features (view s))"
    and "f_customer_id f \<noteq> cid \<or> feature_name f \<notin> fst ` set fs"
  shows "f \<in> set (customer_features (view s'))"
  using assms
proof (induction fs arbitrary: s k)
  case Nil
  then show ?case by simp
next
  case (Cons item fs)
  obtain fname fvalue where item: "item = (fname, fvalue)" by (cases item)
  from Cons.prems(3) item have other: "\<not> (f_customer_id f = cid \<and> feature_name f = fname)"
    and rest: "f_customer_id f \<noteq> cid \<or> feature_name f \<notin> fst ` set fs"
    by auto
  show ?case
  proof (cases "fvalue = PNone")
    case True
    with Cons.prems item have "update_features str_float uuid4 now cid k fs s = Inr s'"
      by simp
    from Cons.IH [OF this Cons.prems(2) rest] show ?thesis .
  next
    case False
    with Cons.prems item obtain x where x: "py_float str_float fvalue = Inr x"
      by (auto split: sum.splits option.splits)
    let ?P = "\<lambda>f. f_customer_id f = cid \<and> feature_name f = fname"
    show ?thesis
    proof (cases "first (filter ?P (customer_features (view s)))")
      case (Some existing)
      let ?s1 = "s\<lparr>view := (view s)\<lparr>customer_features :=
                    update_first ?P (\<lambda>f. f\<lparr>feature_value := x, recorded_at := now\<rparr>)
                      (customer_features (view s))\<rparr>\<rparr>"
      from Cons.prems(1) False x Some item
      have run: "update_features str_float uuid4 now cid k fs ?s1 = Inr s'"
        by simp
      have "f \<in> set (customer_features (view ?s1))"
        using update_first_keeps [OF Cons.prems(2), of ?P] other by simp
      from Cons.IH [OF run this rest] show ?thesis .
    next
      case None
      let ?row = "\<lparr>f_id = uuid4 k, f_customer_id = cid, feature_name = fname,
                   feature_value = x, recorded_at = now\<rparr>"
      from Cons.prems(1) False x None item
      have run: "update_features str_float uuid4 now cid (Suc k) fs (add_feature ?row s) = Inr s'"
        by simp
      have "f \<in> set (customer_features (view (add_feature ?row s)))"
        using Cons.prems(2) by (simp add: add_feature_def)
      from Cons.IH [OF run this rest] show ?thesis .
    qed
  qed
qed

text \<open>Every written item of a dictionary (its keys are distinct) ends up in a row.\<close>

lemma update_features_stores:
  assumes "update_features str_float uuid4 now cid k fs s = Inr s'"
    and "distinct (map fst fs)"
    and "item \<in> set fs" and "snd item \<noteq> PNone"
  shows "\<exists>f \<in> set (customer_features (view s')). stores_item str_float cid now f item"
  using assms
proof (induction fs arbitrary: s k)
  case Nil
  then show ?case by simp
next
  case (Cons head fs)
  obtain fname fvalue where head: "head = (fname, fvalue)" by (cases head)
  from Cons.prems(2) head have dist: "distinct (map fst fs)" and fresh: "fname \<notin> fst ` set fs"
    by auto
  let ?P = "\<lambda>f. f_customer_id f = cid \<and> feature_name f = fname"
  show ?case
  proof (cases "fvalue = PNone")
    case True
    with Cons.prems head have run: "update_features str_float uuid4 now cid k fs s = Inr s'"
      and mem: "item \<in> set fs"
      by auto
    from Cons.IH [OF run dist mem Cons.prems(4)] show ?thesis .
  next
    case False
    with Cons.prems(1) head obtain x where x: "py_float str_float fvalue = Inr x"
      by (auto split: sum.splits option.splits)
    obtain s1 k1 where run: "update_features str_float uuid4 now cid k1 fs s1 = Inr s'"
      and written: "\<exists>f \<in> set (customer_features (view s1)). stores_item str_float cid now f head"
    proof (cases "first (filter ?P (customer_features (view s)))")
      case (Some existing)
      let ?g = "\<lambda>f. f\<lparr>feature_value := x, recorded_at := now\<rparr>"
      let ?s1 = "s\<lparr>view := (view s)\<lparr>customer_features :=
                    update_first ?P ?g (customer_features (view s))\<rparr>\<rparr>"
      from Cons.prems(1) False x Some head
      have r: "update_features str_float uuid4 now cid k fs ?s1 = Inr s'"
        by simp
      from first_filter_Some [OF Some]
      obtain y where "y \<in> set (customer_features (view s))" "?P y"
        and "?g y \<in> set (update_first ?P ?g (customer_features (view s)))"
        using update_first_writes [of existing "customer_features (view s)" ?P ?g] by blast
      then have "\<exists>f \<in> set (customer_features (view ?s1)). stores_item str_float cid now f head"
        using x by (auto simp: stores_item_def head intro!: bexI [of _ "?g y"])
      with r that show ?thesis by blast
    next
      case None
      let ?row = "\<lparr>f_id = uuid4 k, f_customer_id = cid, feature_name = fname,
                   feature_value = x, recorded_at = now\<rparr>"
      from Cons.prems(1) False x None head
      have r: "update_features str_float uuid4 now cid (Suc k) fs (add_feature ?row s) = Inr s'"
        by simp
      have "\<exists>f \<in> set (customer_features (view (add_feature ?row s))).
              stores_item str_float cid now f head"
        using x by (auto simp: stores_item_def head add_feature_def)
      with r that show ?thesis by blast
    qed
    show ?thesis
    proof (cases "item = head")
      case True
      from written obtain f where f: "f \<in> set (customer_features (view s1))"
        and st: "stores_item str_float cid now f head"
        by blast
      then have "feature_name f \<notin> fst ` set fs"
        using fresh by (simp add: stores_item_def head)
      from update_features_keeps [OF run f] this st True show ?thesis
        by blast
    next
      case False
      with Cons.prems(3) have "item \<in> set fs" by simp
      from Cons.IH [OF run dist this Cons.prems(4)] show ?thesis .
    qed
  qed
qed

section \<open>Facts about the handlers\<close>

lemma get_customer_Inl:
  "get_customer cid s = Inl e \<Longrightarrow> \<forall>c \<in> set (customers (view s)). c_id c \<noteq> cid"
  by (auto simp: get_customer_def get_customer_row_def first_filter_None Let_def
      split: option.splits)

lemma service_predict_failure:
  "service_predict_customer_risk rm uuid4 now cid fs s = (Inl e, s') \<Longrightarrow> stored s' = stored s"
  by (auto simp: service_predict_customer_risk_def Let_def db_rollback_def add_prediction_def
      split: option.splits sum.splits)

lemma service_predict_success:
  assumes "service_predict_customer_risk rm uuid4 now cid fs s = (Inr p, s')"
  shows "stored s' = view s' \<and>
         risk_predictions (view s') = risk_predictions (view s) @ [p] \<and>
         customers (view s') = customers (view s) \<and>
         mitigations (view s') = mitigations (view s) \<and>
         (\<exists>rows. customer_features (view s') = customer_features (view s) @ rows \<and>
            list_all2 (stores_item str_float cid now) rows
              (filter (\<lambda>item. is_number (snd item)) fs))"
proof -
  from assms obtain s2 where run: "store_features uuid4 now cid 1 fs (add_prediction p s) = Inr s2"
    and s': "s' = db_commit s2"
    by (auto simp: service_predict_customer_risk_def Let_def split: option.splits sum.splits)
  from store_features_appends [OF run, of str_float]
  obtain rows where
    st: "s2 = (add_prediction p s)\<lparr>view := (view (add_prediction p s))
             \<lparr>customer_features := customer_features (view (add_prediction p s)) @ rows\<rparr>\<rparr>"
    and all: "list_all2 (stores_item str_float cid now) rows
                (filter (\<lambda>item. is_number (snd item)) fs)"
    by blast
  have "customer_features (view s') = customer_features (view s) @ rows"
    unfolding s' st by (simp add: db_commit_def add_prediction_def)
  moreover have "stored s' = view s'"
    "risk_predictions (view s') = risk_predictions (view s) @ [p]"
    "customers (view s') = customers (view s)"
    "mitigations (view s') = mitigations (view s)"
    unfolding s' st by (simp_all add: db_commit_def add_prediction_def)
  ultimately show ?thesis using all by blast
qed

lemma create_customer_stored_customers:
  "customers (stored (snd (create_customer str_float uuid4 now customer features s))) =
     customers (view s) @
       [\<lparr>c_id = uuid4 0, c_external_id = cc_external_id customer, c_name = cc_name customer,
         c_email = cc_email customer, c_phone = cc_phone customer, c_created_at = now,
         c_updated_at = None\<rparr>]"
proof (cases features)
  case None
  then show ?thesis
    by (simp add: create_customer_def Let_def db_commit_def add_customer_def)
next
  case (Some fs)
  let ?c = "\<lparr>c_id = uuid4 0, c_external_id = cc_external_id customer, c_name = cc_name customer,
             c_email = cc_email customer, c_phone = cc_phone customer, c_created_at = now,
             c_updated_at = None\<rparr>"
  let ?s1 = "db_commit (add_customer ?c s)"
  show ?thesis
  proof (cases "add_features str_float uuid4 now (uuid4 0) 1 fs ?s1")
    case (Inl e)
    with Some show ?thesis
      by (simp add: create_customer_def Let_def db_commit_def add_customer_def)
  next
    case (Inr s2)
    from add_features_appends [OF Inr] obtain rows where
      "s2 = ?s1\<lparr>view := (view ?s1)\<lparr>customer_features := customer_features (view ?s1) @ rows\<rparr>\<rparr>"
      by blast
    then have "customers (view s2) = customers (view s) @ [?c]"
      by (simp add: db_commit_def add_customer_def)
    with Some Inr show ?thesis
      by (simp add: create_customer_def Let_def db_commit_def)
  qed
qed

lemma create_customer_stored_features:
  "(fst (create_customer str_float uuid4 now customer features s) = Inl e \<longrightarrow>
      customer_features (stored (snd (create_customer str_float uuid4 now customer features s)))
        = customer_features (view s)) \<and>
   (create_customer str_float uuid4 now customer (Some fs) s = (Inr data, s') \<longrightarrow>
      (\<exists>rows. customer_features (stored s') = customer_features (view s) @ rows \<and>
         list_all2 (stores_item str_float (uuid4 0) now) rows
           (filter (\<lambda>item. snd item \<noteq> PNone) fs)))"
proof -
  let ?c = "\<lparr>c_id = uuid4 0, c_external_id = cc_external_id customer, c_name = cc_name customer,
             c_email = cc_email customer, c_phone = cc_phone customer, c_created_at = now,
             c_updated_at = None\<rparr>"
  let ?s1 = "db_commit (add_customer ?c s)"
  have s1: "customer_features (stored ?s1) = customer_features (view s)"
    "customer_features (view ?s1) = customer_features (view s)"
    by (simp_all add: db_commit_def add_customer_def)
  have found: "get_customer (uuid4 0) t \<noteq> Inl e"
    if "customers (view t) = customers (view s) @ [?c]" for t e
    using get_customer_Inl [of "uuid4 0" t e] that by auto
  have fail: "customer_features (stored (snd (create_customer str_float uuid4 now customer features s)))
                = customer_features (view s)"
    if "fst (create_customer str_float uuid4 now customer features s) = Inl e"
  proof (cases features)
    case None
    then show ?thesis
      by (simp add: create_customer_def Let_def s1)
  next
    case (Some gs)
    show ?thesis
    proof (cases "add_features str_float uuid4 now (uuid4 0) 1 gs ?s1")
      case (Inl e')
      with Some show ?thesis
        by (simp add: create_customer_def Let_def s1)
    next
      case (Inr s2)
      from add_features_appends [OF Inr] obtain rows where
        "s2 = ?s1\<lparr>view := (view ?s1)\<lparr>customer_features := customer_features (view ?s1) @ rows\<rparr>\<rparr>"
        by blast
      then have "customers (view (db_commit s2)) = customers (view s) @ [?c]"
        by (simp add: db_commit_def add_customer_def)
      from found [OF this] that Some Inr show ?thesis
        by (simp add: create_customer_def Let_def)
    qed
  qed
  have ok: "\<exists>rows. customer_features (stored s') = customer_features (view s) @ rows \<and>
              list_all2 (stores_item str_float (uuid4 0) now) rows
                (filter (\<lambda>item. snd item \<noteq> PNone) fs)"
    if "create_customer str_float uuid4 now customer (Some fs) s = (Inr data, s')"
  proof -
    from that obtain s2 where run: "add_features str_float uuid4 now (uuid4 0) 1 fs ?s1 = Inr s2"
      and s': "s' = db_commit s2"
      by (auto simp: create_customer_def Let_def split: sum.splits)
    from add_features_appends [OF run] obtain rows where
      s2: "s2 = ?s1\<lparr>view := (view ?s1)\<lparr>customer_features := customer_features (view ?s1) @ rows\<rparr>\<rparr>"
      and all: "list_all2 (stores_item str_float (uuid4 0) now) rows
                  (filter (\<lambda>item. snd item \<noteq> PNone) fs)"
      by blast
    have "customer_features (stored s') = customer_features (view s) @ rows"
      unfolding s' s2 by (simp add: db_commit_def add_customer_def)
    with all show ?thesis by blast
  qed
  from fail ok show ?thesis by blast
qed

lemma update_customer_success:
  assumes "update_customer str_float uuid4 now cid customer_update (Some fs) s = (Inr data, s')"
  shows "\<exists>s1 s2. customer_features (view s1) = customer_features (view s) \<and>
           update_features str_float uuid4 now cid 0 fs s1 = Inr s2 \<and>
           stored s' = view s2"
proof -
  define s1 where "s1 = db_commit
      (s\<lparr>view := (view s)\<lparr>customers :=
           update_first (\<lambda>c. c_id c = cid)
             (\<lambda>c. c\<lparr>c_name := cb_name customer_update,
                      c_email := (case cb_email customer_update of None \<Rightarrow> c_email c | Some v \<Rightarrow> v),
                      c_phone := (case cb_phone customer_update of None \<Rightarrow> c_phone c | Some v \<Rightarrow> v),
                      c_updated_at := Some now\<rparr>)
             (customers (view s))\<rparr>\<rparr>)"
  have feats: "customer_features (view s1) = customer_features (view s)"
    by (simp add: s1_def db_commit_def)
  from assms have "\<exists>s2. update_features str_float uuid4 now cid 0 fs s1 = Inr s2 \<and> s' = db_commit s2"
    unfolding update_customer_def Let_def s1_def [symmetric]
    by (auto split: option.splits sum.splits)
  then obtain s2 where "update_features str_float uuid4 now cid 0 fs s1 = Inr s2"
    and "stored s' = view s2"
    by (auto simp: db_commit_def)
  with feats show ?thesis by blast
qed

section \<open>The foreign key of the predictions is kept by every handler\<close>

lemma session_ok_open: "predictions_have_customers d \<Longrightarrow> session_ok (open_session d)"
  by (simp add: session_ok_def open_session_def)

lemma predictions_have_customers_empty: "predictions_have_customers empty_db"
  by (simp add: predictions_have_customers_def empty_db_def)

lemma session_ok_commit: "predictions_have_customers (view s) \<Longrightarrow> session_ok (db_commit s)"
  by (simp add: session_ok_def db_commit_def)

lemma session_ok_rollback: "predictions_have_customers (stored s) \<Longrightarrow> session_ok (db_rollback s)"
  by (simp add: session_ok_def db_rollback_def)

lemma get_customer_row_Some:
  "get_customer_row cid d = Some c \<Longrightarrow> c \<in> set (customers d) \<and> c_id c = cid"
  using first_filter_Some [of "\<lambda>c. c_id c = cid" "customers d" c]
  by (simp add: get_customer_row_def)

lemma image_update_first:
  assumes "\<And>x. f (g x) = f x"
  shows "f ` set (update_first P g xs) = f ` set xs"
  using assms by (induction xs) auto

lemma update_features_frame:
  assumes "update_features str_float uuid4 now cid k fs s = Inr s'"
  shows "stored s' = stored s \<and> customers (view s') = customers (view s) \<and>
         risk_predictions (view s') = risk_predictions (view s) \<and>
         mitigations (view s') = mitigations (view s)"
  using assms
proof (induction fs arbitrary: s k)
  case Nil
  then show ?case by simp
next
  case (Cons item fs)
  obtain fname fvalue where item: "item = (fname, fvalue)" by (cases item)
  show ?case
  proof (cases "fvalue = PNone")
    case True
    with Cons item show ?thesis by simp
  next
    case False
    with Cons.prems item obtain x where x: "py_float str_float fvalue = Inr x"
      by (auto split: sum.splits option.splits)
    show ?thesis
    proof (cases "first (filter (\<lambda>f. f_customer_id f = cid \<and> feature_name f = fname)
                           (customer_features (view s)))")
      case (Some existing)
      with Cons.prems False x item Cons.IH show ?thesis
        by fastforce
    next
      case None
      with Cons.prems False x item
        Cons.IH [of "Suc k" "add_feature \<lparr>f_id = uuid4 k, f_customer_id = cid,
                     feature_name = fname, feature_value = x, recorded_at = now\<rparr> s"]
      show ?thesis
        by (simp add: add_feature_def)
    qed
  qed
qed

lemma create_mitigation_ok:
  "session_ok s \<Longrightarrow> session_ok (snd (create_mitigation uuid4 now mitigation s))"
  by (auto simp: create_mitigation_def Let_def session_ok_def db_commit_def add_mitigation_def
        predictions_have_customers_def split: option.splits)

lemma post_mitigation_ok:
  "session_ok s \<Longrightarrow> session_ok (snd (post_mitigation uuid4 now body s))"
  by (auto simp: post_mitigation_def create_mitigation_ok split: sum.splits)

lemma update_mitigation_status_ok:
  "session_ok s \<Longrightarrow> session_ok (snd (update_mitigation_status now mid status s))"
  by (auto simp: update_mitigation_status_def Let_def session_ok_def db_commit_def
        predictions_have_customers_def split: option.splits)

lemma predict_customer_risk_ok:
  assumes "session_ok s"
  shows "session_ok (snd (predict_customer_risk rm uuid4 now prediction_data s))"
proof (cases "get_customer_row (rpc_customer_id prediction_data) (view s)")
  case None
  with assms show ?thesis by (simp add: predict_customer_risk_def)
next
  case (Some customer)
  from get_customer_row_Some [OF Some]
  have "rpc_customer_id prediction_data \<in> c_id ` set (customers (view s))" by force
  with assms Some show ?thesis
    by (auto simp: predict_customer_risk_def Let_def session_ok_def db_commit_def
          add_prediction_def predictions_have_customers_def split: sum.splits)
qed

lemma service_predict_ok:
  assumes "session_ok s"
  shows "session_ok (snd (service_predict_customer_risk rm uuid4 now cid fs s))"
proof (cases "service_predict_customer_risk rm uuid4 now cid fs s")
  case (Pair r s')
  show ?thesis
  proof (cases r)
    case (Inl e)
    with Pair have "s' = s \<or> (\<exists>t. s' = db_rollback t \<and> stored t = stored s)"
      by (auto simp: service_predict_customer_risk_def Let_def add_prediction_def
          split: option.splits sum.splits)
    with assms session_ok_rollback Pair show ?thesis
      by (auto simp: session_ok_def)
  next
    case (Inr p)
    with Pair have run: "service_predict_customer_risk rm uuid4 now cid fs s = (Inr p, s')"
      by simp
    then obtain customer where "get_customer_row cid (view s) = Some customer"
      and "p_customer_id p = cid"
      by (auto simp: service_predict_customer_risk_def Let_def split: option.splits sum.splits)
    with get_customer_row_Some [of cid "view s" customer]
    have "p_customer_id p \<in> c_id ` set (customers (view s))" by force
    with assms service_predict_success [OF run, of "\<lambda>t. None"] Pair show ?thesis
      by (auto simp: session_ok_def predictions_have_customers_def)
  qed
qed

lemma create_customer_ok:
  assumes "session_ok s"
  shows "session_ok (snd (create_customer str_float uuid4 now customer features s))"
proof -
  let ?c = "\<lparr>c_id = uuid4 0, c_external_id = cc_external_id customer, c_name = cc_name customer,
             c_email = cc_email customer, c_phone = cc_phone customer, c_created_at = now,
             c_updated_at = None\<rparr>"
  let ?s1 = "db_commit (add_customer ?c s)"
  from assms have s1: "session_ok ?s1"
    by (auto simp: session_ok_def db_commit_def add_customer_def predictions_have_customers_def)
  show ?thesis
  proof (cases features)
    case None
    with s1 show ?thesis by (simp add: create_customer_def Let_def)
  next
    case (Some fs)
    show ?thesis
    proof (cases "add_features str_float uuid4 now (uuid4 0) 1 fs ?s1")
      case (Inl e)
      with Some s1 show ?thesis by (simp add: create_customer_def Let_def)
    next
      case (Inr s2)
      from add_features_appends [OF Inr] obtain rows where
        "s2 = ?s1\<lparr>view := (view ?s1)\<lparr>customer_features := customer_features (view ?s1) @ rows\<rparr>\<rparr>"
        by blast
      with s1 have "predictions_have_customers (view s2)"
        by (simp add: session_ok_def predictions_have_customers_def)
      from session_ok_commit [OF this] Some Inr show ?thesis
        by (simp add: create_customer_def Let_def)
    qed
  qed
qed

lemma update_customer_ok:
  assumes "session_ok s"
  shows "session_ok (snd (update_customer str_float uuid4 now cid customer_update features_update s))"
proof (cases "get_customer_row cid (view s)")
  case None
  with assms show ?thesis by (simp add: update_customer_def)
next
  case (Some db_customer)
  define s1 where "s1 = db_commit
      (s\<lparr>view := (view s)\<lparr>customers :=
           update_first (\<lambda>c. c_id c = cid)
             (\<lambda>c. c\<lparr>c_name := cb_name customer_update,
                      c_email := (case cb_email customer_update of None \<Rightarrow> c_email c | Some v \<Rightarrow> v),
                      c_phone := (case cb_phone customer_update of None \<Rightarrow> c_phone c | Some v \<Rightarrow> v),
                      c_updated_at := Some now\<rparr>)
             (customers (view s))\<rparr>\<rparr>)"
  from assms have s1: "session_ok s1"
    by (simp add: s1_def session_ok_def db_commit_def predictions_have_customers_def
          image_update_first)
  have unfold: "update_customer str_float uuid4 now cid customer_update features_update s =
                  (case features_update of
                     None \<Rightarrow> (get_customer cid s1, s1)
                   | Some fs \<Rightarrow>
                       (case update_features str_float uuid4 now cid 0 fs s1 of
                          Inl e \<Rightarrow> (Inl e, s1)
                        | Inr s2 \<Rightarrow> (get_customer cid (db_commit s2), db_commit s2)))"
    using Some by (simp add: update_customer_def Let_def s1_def split: option.splits sum.splits)
  show ?thesis
  proof (cases features_update)
    case None
    with s1 unfold show ?thesis by simp
  next
    case (Some fs)
    show ?thesis
    proof (cases "update_features str_float uuid4 now cid 0 fs s1")
      case (Inl e)
      with Some s1 unfold show ?thesis by simp
    next
      case (Inr s2)
      from update_features_frame [OF Inr] s1 have "predictions_have_customers (view s2)"
        by (simp add: session_ok_def predictions_have_customers_def)
      from session_ok_commit [OF this] Some Inr unfold show ?thesis by simp
    qed
  qed
qed

lemma delete_customer_ok:
  assumes "session_ok s"
  shows "session_ok (snd (delete_customer cid s))"
proof (cases "get_customer_row cid (view s)")
  case None
  with assms show ?thesis by (simp add: delete_customer_def)
next
  case (Some db_customer)
  from get_customer_row_Some [OF Some] have "c_id db_customer = cid" by simp
  with assms Some show ?thesis
    by (auto simp: delete_customer_def Let_def session_ok_def db_commit_def db_rollback_def
          predictions_have_customers_def)
qed

text \<open>
  What \<open>delete_customer\<close> does for a customer without mitigations: no feature and no
  prediction of the customer is left and the customer is gone. For a customer with a
  mitigation it fails and the stored state is the one it found.
\<close>

lemma delete_customer_effect:
  assumes "get_customer_row cid (view s) = Some db_customer"
    and "\<forall>m \<in> set (mitigations (view s)). m_customer_id m \<noteq> cid"
  shows "fst (delete_customer cid s) = Inr () \<and>
         stored (snd (delete_customer cid s)) = view (snd (delete_customer cid s)) \<and>
         (\<forall>f \<in> set (customer_features (stored (snd (delete_customer cid s)))). f_customer_id f \<noteq> cid) \<and>
         (\<forall>p \<in> set (risk_predictions (stored (snd (delete_customer cid s)))). p_customer_id p \<noteq> cid) \<and>
         (\<forall>c \<in> set (customers (stored (snd (delete_customer cid s)))). c_id c \<noteq> cid) \<and>
         mitigations (stored (snd (delete_customer cid s))) = mitigations (view s)"
  using assms get_customer_row_Some [OF assms(1)]
  by (simp add: delete_customer_def Let_def db_commit_def filter_empty_conv)

lemma delete_customer_refused:
  assumes "get_customer_row cid (view s) = Some db_customer"
    and "m \<in> set (mitigations (view s))" and "m_customer_id m = cid"
  shows "fst (delete_customer cid s) = Inl (IntegrityError ''mitigations.customer_id'') \<and>
         stored (snd (delete_customer cid s)) = stored s"
proof -
  from get_customer_row_Some [OF assms(1)] have "c_id db_customer = cid" by simp
  with assms(2,3) have "filter (\<lambda>m. m_customer_id m = c_id db_customer) (mitigations (view s)) \<noteq> []"
    by (auto simp: filter_empty_conv)
  with assms(1) show ?thesis
    by (simp add: delete_customer_def Let_def db_rollback_def)
qed

text \<open>
  What the customer route reports does not depend on the prediction table: the risk
  keys the handler writes are not fields of the response.
\<close>

lemma get_customer_response_ignores_predictions:
  "get_customer_response cid (s\<lparr>view := (view s)\<lparr>risk_predictions := ps\<rparr>\<rparr>) =
   get_customer_response cid s"
  by (simp add: get_customer_response_def get_customer_def get_customer_row_def
        response_CustomerWithFeatures_def Let_def
      split: option.splits)

text \<open>The predict endpoint never touches the feature table.\<close>

lemma predict_customer_risk_features:
  "customer_features (view (snd (predict_customer_risk rm uuid4 now prediction_data s))) =
     customer_features (view s)"
  by (simp add: predict_customer_risk_def Let_def db_commit_def add_prediction_def
      split: option.splits sum.splits)

text \<open>
  Of two predictions with the same timestamp the query for the latest returns the one
  inserted first.
\<close>

lemma latest_prediction_tie:
  "latest_prediction 7
     (empty_db\<lparr>risk_predictions := [prediction_of 2 7 ''Low'' 5, prediction_of 3 7 ''High'' 5]\<rparr>)
   = Some (prediction_of 2 7 ''Low'' 5)"
  by (simp add: latest_prediction_def order_by_desc_def first_def empty_db_def prediction_of_def)

section \<open>Mitigation claims\<close>

text \<open>
  Claim C1, as amended. A mitigation-creation request succeeds only if the supplied
  risk level is High and the customer's current risk level in the ledger is High. The
  two conditions are enforced independently and fail differently: a supplied level other
  than High is rejected by the schema validation, with a ValidationError that carries
  the validator's ValueError, before the handler runs and whatever the ledger says; an
  absent customer is answered with HTTP 404; an existing customer whose latest
  prediction is missing or not High is answered with HTTP 400 whatever level was
  supplied in a well-formed body. No failure of any kind changes the session.
\<close>

theorem post_mitigation_gate:
  "(post_mitigation new_id now body s = (Inr m, s') \<longrightarrow>
      mc_risk_level body = ''High'' \<and>
      current_risk_level (mc_customer_id body) (view s) = Some ''High'') \<and>
   (mc_risk_level body \<noteq> ''High'' \<longrightarrow>
      (\<exists>errors. post_mitigation new_id now body s = (Inl (ValidationError errors), s) \<and>
         ValueError high_risk_detail \<in> set errors)) \<and>
   (parse_MitigationCreate body = Inr body \<and>
    get_customer_row (mc_customer_id body) (view s) = None \<longrightarrow>
      post_mitigation new_id now body s =
        (Inl (HTTPException 404 (Text ''Customer not found'')), s)) \<and>
   (parse_MitigationCreate body = Inr body \<and>
    get_customer_row (mc_customer_id body) (view s) \<noteq> None \<and>
    current_risk_level (mc_customer_id body) (view s) \<noteq> Some ''High'' \<longrightarrow>
      post_mitigation new_id now body s = (Inl (HTTPException 400 high_risk_detail), s)) \<and>
   (current_risk_level (mc_customer_id body) (view s) \<noteq> Some ''High'' \<longrightarrow>
      (\<exists>e. post_mitigation new_id now body s = (Inl e, s))) \<and>
   (post_mitigation new_id now body s = (Inl e, s') \<longrightarrow> s' = s)"
  by (auto simp: post_mitigation_def create_mitigation_def parse_MitigationCreate_def
        validate_high_risk_def validate_mitigation_type_def current_risk_level_def
        high_risk_detail_def Let_def
      split: sum.splits option.splits if_splits)

lemma latest_prediction_jane_low:
  "latest_prediction 7 jane_low_db = Some (prediction_of 2 7 ''Low'' 3)"
  by (simp add: latest_prediction_def jane_low_db_def empty_db_def prediction_of_def
        order_by_desc_def first_def)

theorem post_mitigation_gate_witness:
  "mc_risk_level (flag_body ''Low'') \<noteq> ''High'' \<and>
   post_mitigation 9 5 (flag_body ''Low'') (open_session jane_low_db) =
     (Inl (ValidationError [ValueError high_risk_detail]), open_session jane_low_db) \<and>
   parse_MitigationCreate (flag_body ''High'') = Inr (flag_body ''High'') \<and>
   get_customer_row (mc_customer_id (flag_body ''High'')) (view (open_session jane_low_db)) \<noteq> None \<and>
   current_risk_level (mc_customer_id (flag_body ''High'')) (view (open_session jane_low_db))
     \<noteq> Some ''High'' \<and>
   post_mitigation 9 5 (flag_body ''High'') (open_session jane_low_db) =
     (Inl (HTTPException 400 high_risk_detail), open_session jane_low_db) \<and>
   post_mitigation 12 6 (flag_body ''High'') (open_session jane_full_db) =
     (Inr jane_flag_12, open_session (jane_full_db\<lparr>mitigations := [jane_flag, jane_flag_12]\<rparr>)) \<and>
   current_risk_level (mc_customer_id (flag_body ''High'')) (view (open_session jane_full_db))
     = Some ''High'' \<and>
   fst (post_mitigation 12 6 ((flag_body ''High'')\<lparr>mc_mitigation_type := ''Email''\<rparr>)
          (open_session jane_full_db)) =
     Inl (ValidationError
            [ValueError (Text ''mitigation_type must be one of ['Flag', 'Note', 'Action', 'Monitor']'')]) \<and>
   snd (post_mitigation 12 6 ((flag_body ''High'')\<lparr>mc_mitigation_type := ''Email''\<rparr>)
          (open_session jane_full_db)) = open_session jane_full_db"
proof -
  have low: "mc_risk_level (flag_body ''Low'') \<noteq> ''High''"
    by (simp add: flag_body_def)
  have rejected: "post_mitigation 9 5 (flag_body ''Low'') (open_session jane_low_db) =
      (Inl (ValidationError [ValueError high_risk_detail]), open_session jane_low_db)"
    by (simp add: post_mitigation_def parse_MitigationCreate_def validate_high_risk_def
          validate_mitigation_type_def flag_body_def high_risk_detail_def Let_def)
  have parsed: "parse_MitigationCreate (flag_body ''High'') = Inr (flag_body ''High'')"
    by (simp add: parse_MitigationCreate_def validate_high_risk_def
          validate_mitigation_type_def flag_body_def Let_def)
  have found: "get_customer_row (mc_customer_id (flag_body ''High''))
                 (view (open_session jane_low_db)) \<noteq> None"
    by (simp add: get_customer_row_def flag_body_def open_session_def jane_low_db_def
          empty_db_def jane_def first_def)
  have level: "current_risk_level (mc_customer_id (flag_body ''High''))
                 (view (open_session jane_low_db)) \<noteq> Some ''High''"
    by (simp add: current_risk_level_def flag_body_def open_session_def
          latest_prediction_jane_low prediction_of_def)
  have created: "post_mitigation 12 6 (flag_body ''High'') (open_session jane_full_db) =
      (Inr jane_flag_12, open_session (jane_full_db\<lparr>mitigations := [jane_flag, jane_flag_12]\<rparr>))"
    by (simp add: post_mitigation_def create_mitigation_def parse_MitigationCreate_def
          validate_high_risk_def validate_mitigation_type_def flag_body_def
          get_customer_row_def latest_prediction_def order_by_desc_def first_def
          open_session_def jane_full_db_def jane_def prediction_of_def jane_flag_def
          jane_flag_12_def db_commit_def add_mitigation_def Let_def)
  have badtype: "fst (post_mitigation 12 6 ((flag_body ''High'')\<lparr>mc_mitigation_type := ''Email''\<rparr>)
                        (open_session jane_full_db)) =
      Inl (ValidationError
             [ValueError (Text ''mitigation_type must be one of ['Flag', 'Note', 'Action', 'Monitor']'')])"
    by (simp add: post_mitigation_def parse_MitigationCreate_def validate_high_risk_def
          validate_mitigation_type_def flag_body_def Let_def)
  from low rejected parsed found level created badtype
    post_mitigation_gate [of 9 5 "flag_body ''Low''" "open_session jane_low_db"]
    post_mitigation_gate [of 9 5 "flag_body ''High''" "open_session jane_low_db"]
    post_mitigation_gate [of 12 6 "flag_body ''High''" "open_session jane_full_db" jane_flag_12
       "open_session (jane_full_db\<lparr>mitigations := [jane_flag, jane_flag_12]\<rparr>)"]
    post_mitigation_gate [of 12 6 "(flag_body ''High'')\<lparr>mc_mitigation_type := ''Email''\<rparr>"
       "open_session jane_full_db" _
       "snd (post_mitigation 12 6 ((flag_body ''High'')\<lparr>mc_mitigation_type := ''Email''\<rparr>)
               (open_session jane_full_db))"
       "ValidationError
          [ValueError (Text ''mitigation_type must be one of ['Flag', 'Note', 'Action', 'Monitor']'')]"]
  show ?thesis by (metis prod.collapse)
qed

text \<open>
  The claim as first stated promises HTTP 400 for every request that fails the gate. A
  well-formed High request for a customer that does not exist fails the ledger condition
  and is answered with 404.
\<close>

theorem post_mitigation_missing_customer_counterexample:
  "current_risk_level (mc_customer_id (flag_body ''High'')) (view (open_session empty_db))
     \<noteq> Some ''High'' \<and>
   fst (post_mitigation 9 5 (flag_body ''High'') (open_session empty_db)) =
     Inl (HTTPException 404 (Text ''Customer not found''))"
  by (simp add: post_mitigation_def create_mitigation_def parse_MitigationCreate_def
        validate_high_risk_def validate_mitigation_type_def current_risk_level_def
        latest_prediction_def get_customer_row_def order_by_desc_def first_def
        flag_body_def open_session_def empty_db_def Let_def)

text \<open>
  Claim C10. In \<open>update_mitigation_status\<close> the status value is checked before the
  mitigation is looked up: a request with a status outside Pending, In Progress,
  Completed, Cancelled is answered with HTTP 400 and leaves the session (stored state and
  view) as it was, whether or not a mitigation has the id; in particular a request that
  names an id no mitigation has gets 400, not 404.
\<close>

theorem update_status_invalid_before_missing:
  assumes "status \<notin> {''Pending'', ''In Progress'', ''Completed'', ''Cancelled''}"
    and "\<forall>m \<in> set (mitigations (view s)). m_id m \<noteq> mitigation_id"
  shows "\<exists>d. update_mitigation_status now mitigation_id status s = (Inl (HTTPException 400 d), s)"
  using assms by (simp add: update_mitigation_status_def)

theorem update_status_invalid_before_missing_witness:
  "''Done'' \<notin> {''Pending'', ''In Progress'', ''Completed'', ''Cancelled''} \<and>
   mitigations (view (open_session empty_db)) = [] \<and>
   (\<exists>d. update_mitigation_status 5 7 ''Done'' (open_session empty_db) =
          (Inl (HTTPException 400 d), open_session empty_db))"
proof -
  have bad: "''Done'' \<notin> {''Pending'', ''In Progress'', ''Completed'', ''Cancelled''}"
    by simp
  have none: "mitigations (view (open_session empty_db)) = []"
    by (simp add: open_session_def empty_db_def)
  then have missing: "\<forall>m \<in> set (mitigations (view (open_session empty_db))). m_id m \<noteq> 7"
    by simp
  from update_status_invalid_before_missing [OF bad missing, of 5] bad none
  show ?thesis by blast
qed

section \<open>Ledger claims\<close>

text \<open>
  The handler \<open>get_customer\<close> puts the current risk level into its dictionary: for an
  existing customer with predictions, the level, confidence and time of a prediction of
  the customer with the greatest timestamp; for one without, none of the three keys.
\<close>

lemma get_customer_handler_risk:
  assumes "c \<in> set (customers (view s))" and "c_id c = cid"
  shows "\<exists>data. get_customer cid s = Inr data \<and>
           ((\<exists>p \<in> set (risk_predictions (view s)). p_customer_id p = cid) \<longrightarrow>
              (\<exists>p \<in> set (risk_predictions (view s)).
                 p_customer_id p = cid \<and>
                 (\<forall>q \<in> set (risk_predictions (view s)).
                    p_customer_id q = cid \<longrightarrow> prediction_timestamp q \<le> prediction_timestamp p) \<and>
                 cd_risk_level data = Some (p_risk_level p) \<and>
                 cd_confidence_score data = Some (p_confidence_score p) \<and>
                 cd_last_prediction data = Some (prediction_timestamp p))) \<and>
           ((\<forall>p \<in> set (risk_predictions (view s)). p_customer_id p \<noteq> cid) \<longrightarrow>
              cd_risk_level data = None \<and> cd_confidence_score data = None \<and>
              cd_last_prediction data = None)"
proof -
  from assms obtain row where row: "get_customer_row cid (view s) = Some row"
    using first_filter_None [of "\<lambda>c. c_id c = cid" "customers (view s)"]
    by (auto simp: get_customer_row_def)
  then have rid: "c_id row = cid"
    using first_filter_Some [of "\<lambda>c. c_id c = cid" "customers (view s)" row]
    by (simp add: get_customer_row_def)
  show ?thesis
  proof (cases "latest_prediction cid (view s)")
    case None
    then have "\<forall>p \<in> set (risk_predictions (view s)). p_customer_id p \<noteq> cid"
      by (simp add: latest_prediction_None)
    with row rid None show ?thesis
      by (simp add: get_customer_def Let_def)
  next
    case (Some lp)
    from latest_prediction_Some [OF Some] row rid Some show ?thesis
      by (auto simp: get_customer_def Let_def)
  qed
qed


text \<open>
  Claim C3, the code at a failing input. Jane has one prediction, Low. The handler's
  dictionary carries the level Low, but what \<open>GET /customers/7\<close> reports is that
  dictionary read into \<open>CustomerWithFeatures\<close>, which has no field for it: the response for
  Jane with her prediction is the same as the response for Jane without any, and no
  current risk level is reported.
\<close>

theorem customer_response_omits_risk_level:
  "(\<exists>data. get_customer 7 (open_session jane_low_db) = Inr data \<and>
      cd_risk_level data = Some ''Low'' \<and> cd_last_prediction data = Some 3) \<and>
   (\<exists>r. get_customer_response 7 (open_session jane_low_db) = Inr r \<and> cw_id r = 7) \<and>
   get_customer_response 7 (open_session jane_low_db) =
     get_customer_response 7 (open_session jane_db)"
  by (simp add: get_customer_response_def get_customer_def get_customer_row_def
        latest_prediction_def order_by_desc_def first_def response_CustomerWithFeatures_def
        open_session_def jane_low_db_def jane_db_def empty_db_def jane_def
        prediction_of_def Let_def)

text \<open>
  On PostgreSQL, where the subquery holds each customer's latest prediction: if the
  latest level of every customer is one of Low, Medium, High, the three counts sum to the
  number of customers that have a prediction; and on either database a customer without
  predictions has no row in the subquery.
\<close>

lemma distribution_counts_sum_postgresql:
  assumes "\<forall>cid l. current_risk_level cid (view s) = Some l \<longrightarrow> l \<in> {''Low'', ''Medium'', ''High''}"
  shows "low_risk_count (get_risk_distribution PostgreSQL s)
           + medium_risk_count (get_risk_distribution PostgreSQL s)
           + high_risk_count (get_risk_distribution PostgreSQL s)
         = card (p_customer_id ` set (risk_predictions (view s)))"
    and "low_risk_count (service_get_risk_distribution PostgreSQL now s)
           + medium_risk_count (service_get_risk_distribution PostgreSQL now s)
           + high_risk_count (service_get_risk_distribution PostgreSQL now s)
         = card (p_customer_id ` set (risk_predictions (view s)))"
  using count_level_three [OF latest_levels_valid [OF assms]]
  by (simp_all add: get_risk_distribution_def service_get_risk_distribution_def Let_def
        length_latest_levels)

lemma no_prediction_no_row:
  assumes "\<forall>p \<in> set (risk_predictions d). p_customer_id p \<noteq> cid"
  shows "(cid, l) \<notin> set (latest_levels dia d)"
proof (cases dia)
  case PostgreSQL
  with assms current_risk_level_None [of cid d] show ?thesis
    by (simp add: latest_levels_mem)
next
  case SQLite
  with assms show ?thesis
    by (auto simp: latest_levels.simps order_by_desc_def)
qed

text \<open>
  Claim C4, the code at failing inputs. Jane has a Low prediction at time 3 and a High
  one at time 5, Bob has none: one customer has predictions. On the default SQLite
  database the subquery is a plain DISTINCT over (customer, level), Jane is counted in
  the Low bucket and in the High bucket, and the three counts sum to 2. (On PostgreSQL
  the same state gives 0, 0, 1.) And on either database, after one predict request the
  estimator answered with the label 3, Jane's only prediction has the level Unknown and
  the counts sum to 0 for one customer with predictions.
\<close>

theorem distribution_sum_fails:
  "card (p_customer_id ` set (risk_predictions (view (open_session jane_two_levels_db)))) = 1 \<and>
   low_risk_count (get_risk_distribution SQLite (open_session jane_two_levels_db)) = 1 \<and>
   medium_risk_count (get_risk_distribution SQLite (open_session jane_two_levels_db)) = 0 \<and>
   high_risk_count (get_risk_distribution SQLite (open_session jane_two_levels_db)) = 1 \<and>
   low_risk_count (get_risk_distribution PostgreSQL (open_session jane_two_levels_db)) = 0 \<and>
   medium_risk_count (get_risk_distribution PostgreSQL (open_session jane_two_levels_db)) = 0 \<and>
   high_risk_count (get_risk_distribution PostgreSQL (open_session jane_two_levels_db)) = 1 \<and>
   card (p_customer_id ` set (risk_predictions (view (open_session jane_unknown_db)))) = 1 \<and>
   low_risk_count (get_risk_distribution PostgreSQL (open_session jane_unknown_db))
     + medium_risk_count (get_risk_distribution PostgreSQL (open_session jane_unknown_db))
     + high_risk_count (get_risk_distribution PostgreSQL (open_session jane_unknown_db)) = 0 \<and>
   low_risk_count (get_risk_distribution SQLite (open_session jane_unknown_db))
     + medium_risk_count (get_risk_distribution SQLite (open_session jane_unknown_db))
     + high_risk_count (get_risk_distribution SQLite (open_session jane_unknown_db)) = 0"
proof -
  have two: "risk_predictions (view (open_session jane_two_levels_db)) =
               [prediction_of 2 7 ''Low'' 3, prediction_of 3 7 ''High'' 5]"
    by (simp add: open_session_def jane_two_levels_db_def empty_db_def)
  have unknown: "risk_predictions (view (open_session jane_unknown_db)) = [unknown_prediction]"
    by (simp add: jane_unknown_db_eq open_session_def jane_db_def empty_db_def)
  have sqlite2: "latest_levels SQLite (view (open_session jane_two_levels_db)) =
                   [(7, ''High''), (7, ''Low'')]"
    by (simp add: latest_levels.simps order_by_desc_def two prediction_of_def)
  have pg2: "latest_levels PostgreSQL (view (open_session jane_two_levels_db)) = [(7, ''High'')]"
    by (simp add: latest_levels.simps latest_prediction_def order_by_desc_def first_def
          List.map_filter_simps two prediction_of_def)
  have sqlite1: "latest_levels SQLite (view (open_session jane_unknown_db)) = [(7, ''Unknown'')]"
    by (simp add: latest_levels.simps order_by_desc_def unknown unknown_prediction_def
          prediction_of_def)
  have pg1: "latest_levels PostgreSQL (view (open_session jane_unknown_db)) = [(7, ''Unknown'')]"
    by (simp add: latest_levels.simps latest_prediction_def order_by_desc_def first_def
          List.map_filter_simps unknown unknown_prediction_def prediction_of_def)
  show ?thesis
    by (simp add: get_risk_distribution_def Let_def count_level_def sqlite2 pg2 sqlite1 pg1
          two unknown unknown_prediction_def prediction_of_def)
qed

text \<open>
  On PostgreSQL, in a state that respects the foreign key of the predictions (which
  every handler maintains): when some customer has no prediction, the endpoint's total,
  the sum of the three counts, is smaller than the service's, the number of customer
  rows.
\<close>

lemma two_totals_differ_postgresql:
  assumes fk: "predictions_have_customers (view s)"
    and c: "c \<in> set (customers (view s))"
    and nopred: "\<forall>p \<in> set (risk_predictions (view s)). p_customer_id p \<noteq> c_id c"
  shows "total_customers (get_risk_distribution PostgreSQL s)
           < total_customers (service_get_risk_distribution PostgreSQL now s)"
proof -
  let ?P = "p_customer_id ` set (risk_predictions (view s))"
  let ?C = "c_id ` set (customers (view s))"
  have "?P \<subseteq> ?C" using fk by (auto simp: predictions_have_customers_def)
  moreover have "c_id c \<in> ?C" "c_id c \<notin> ?P" using c nopred by auto
  ultimately have "?P \<subset> ?C" by auto
  then have "card ?P < card ?C"
    by (simp add: psubset_card_mono)
  also have "card ?C \<le> length (customers (view s))"
    using card_length [of "map c_id (customers (view s))"] by simp
  finally have lt: "card ?P < length (customers (view s))" .
  have "count_level ''Low'' (latest_levels PostgreSQL (view s))
          + count_level ''Medium'' (latest_levels PostgreSQL (view s))
          + count_level ''High'' (latest_levels PostgreSQL (view s)) \<le> card ?P"
    using count_level_three_le [of "latest_levels PostgreSQL (view s)"]
    by (simp add: length_latest_levels)
  with lt show ?thesis
    by (simp add: get_risk_distribution_def service_get_risk_distribution_def Let_def)
qed

text \<open>
  Claim C5, the code at a failing input. The statistics endpoint's total is the sum of
  its three counts and the service's total is the number of customer rows, on either
  database. Jane has a Low prediction and a later High one, Bob has none, so a customer
  is without predictions. On the default SQLite database Jane is counted twice: the
  endpoint's total is 2 and the service's total is 2, and the two totals do not differ.
  (On PostgreSQL they are 1 and 2.)
\<close>

theorem two_totals_coincide_on_sqlite:
  "customers (view (open_session jane_two_levels_db)) = [jane, bob] \<and>
   map p_customer_id (risk_predictions (view (open_session jane_two_levels_db))) = [7, 7] \<and>
   c_id bob = 8 \<and>
   total_customers (get_risk_distribution SQLite (open_session jane_two_levels_db)) =
     low_risk_count (get_risk_distribution SQLite (open_session jane_two_levels_db))
     + medium_risk_count (get_risk_distribution SQLite (open_session jane_two_levels_db))
     + high_risk_count (get_risk_distribution SQLite (open_session jane_two_levels_db)) \<and>
   total_customers (get_risk_distribution SQLite (open_session jane_two_levels_db)) = 2 \<and>
   total_customers (service_get_risk_distribution SQLite 9 (open_session jane_two_levels_db)) = 2 \<and>
   total_customers (get_risk_distribution PostgreSQL (open_session jane_two_levels_db)) = 1 \<and>
   total_customers (service_get_risk_distribution PostgreSQL 9 (open_session jane_two_levels_db)) = 2"
proof -
  have two: "risk_predictions (view (open_session jane_two_levels_db)) =
               [prediction_of 2 7 ''Low'' 3, prediction_of 3 7 ''High'' 5]"
    by (simp add: open_session_def jane_two_levels_db_def empty_db_def)
  have custs: "customers (view (open_session jane_two_levels_db)) = [jane, bob]"
    by (simp add: open_session_def jane_two_levels_db_def empty_db_def)
  have sqlite2: "latest_levels SQLite (view (open_session jane_two_levels_db)) =
                   [(7, ''High''), (7, ''Low'')]"
    by (simp add: latest_levels.simps order_by_desc_def two prediction_of_def)
  have pg2: "latest_levels PostgreSQL (view (open_session jane_two_levels_db)) = [(7, ''High'')]"
    by (simp add: latest_levels.simps latest_prediction_def order_by_desc_def first_def
          List.map_filter_simps two prediction_of_def)
  show ?thesis
    by (simp add: get_risk_distribution_def service_get_risk_distribution_def Let_def
          count_level_def sqlite2 pg2 two custs prediction_of_def bob_def)
qed

section \<open>Claims about what the write paths store\<close>

text \<open>
  Claim C2, the code at a failing input. Jane has a feature, a prediction and a
  mitigation. \<open>delete_customer\<close> never deletes a mitigation; deleting the customer row
  makes the ORM set the mitigation's \<open>customer_id\<close> to NULL, the database refuses, and the
  request fails with the IntegrityError uncaught. Nothing is removed: the stored state
  is the one before the request, the mitigation can be fetched, and so can the customer.
\<close>

theorem delete_customer_keeps_mitigations:
  "m_customer_id jane_flag = 7 \<and>
   delete_customer 7 (open_session jane_full_db) =
     (Inl (IntegrityError ''mitigations.customer_id''), open_session jane_full_db) \<and>
   stored (snd (delete_customer 7 (open_session jane_full_db))) = jane_full_db \<and>
   mitigations jane_full_db = [jane_flag] \<and>
   get_mitigation 4 (open_session (stored (snd (delete_customer 7 (open_session jane_full_db)))))
     = Inr jane_flag \<and>
   (\<exists>r. get_customer_response 7
          (open_session (stored (snd (delete_customer 7 (open_session jane_full_db)))))
        = Inr r \<and> cw_id r = 7)"
proof -
  have del: "delete_customer 7 (open_session jane_full_db) =
               (Inl (IntegrityError ''mitigations.customer_id''), open_session jane_full_db)"
    by (simp add: delete_customer_def get_customer_row_def first_def open_session_def
          jane_full_db_def jane_def jane_flag_def credit_score_550_def prediction_of_def
          db_rollback_def Let_def)
  have cust: "m_customer_id jane_flag = 7"
    by (simp add: jane_flag_def)
  have st: "stored (open_session jane_full_db) = jane_full_db"
    by (simp add: open_session_def)
  have ms: "mitigations jane_full_db = [jane_flag]"
    by (simp add: jane_full_db_def)
  have getm: "get_mitigation 4 (open_session jane_full_db) = Inr jane_flag"
    by (simp add: get_mitigation_def first_def open_session_def jane_full_db_def jane_flag_def)
  have getc: "\<exists>r. get_customer_response 7 (open_session jane_full_db) = Inr r \<and> cw_id r = 7"
    by (simp add: get_customer_response_def get_customer_def get_customer_row_def
          latest_prediction_def order_by_desc_def first_def response_CustomerWithFeatures_def
          open_session_def jane_full_db_def jane_def prediction_of_def
          credit_score_550_def Let_def)
  show ?thesis
    by (simp only: del cust getm getc st ms snd_conv simp_thms)
qed

text \<open>
  Claim C6, the code at a failing input. Jane exists, the request supplies the numeric
  features credit_score = 550 and income = 25000, and the estimator answers High with
  confidence 0.9. The predict endpoint appends the prediction record and returns it, but
  the feature table is as empty afterwards as it was before. The risk service's predict,
  given the same input, stores the prediction and one feature record for each of the
  two values.
\<close>

theorem predict_endpoint_stores_no_features:
  "predict_customer_risk high_model 20 5 jane_request (open_session jane_db) =
     (Inr high_prediction, open_session (jane_db\<lparr>risk_predictions := [high_prediction]\<rparr>)) \<and>
   customer_features
     (stored (snd (predict_customer_risk high_model 20 5 jane_request (open_session jane_db)))) = [] \<and>
   service_predict_customer_risk high_model (\<lambda>k. 20 + k) 5 7 jane_features (open_session jane_db) =
     (Inr high_prediction,
      open_session (jane_db\<lparr>risk_predictions := [high_prediction],
                            customer_features := jane_feature_rows\<rparr>))"
proof -
  have endpoint:
    "predict_customer_risk high_model 20 5 jane_request (open_session jane_db) =
       (Inr high_prediction, open_session (jane_db\<lparr>risk_predictions := [high_prediction]\<rparr>))"
    by (simp add: predict_customer_risk_def jane_request_def get_customer_row_def first_def jane_def
          RiskModel_predict_high high_prediction_def db_commit_def add_prediction_def
          open_session_def jane_db_def empty_db_def Let_def)
  have feats: "customer_features (stored (open_session (jane_db\<lparr>risk_predictions := [high_prediction]\<rparr>))) = []"
    by (simp add: open_session_def jane_db_def empty_db_def)
  have service:
    "service_predict_customer_risk high_model (\<lambda>k. 20 + k) 5 7 jane_features (open_session jane_db) =
       (Inr high_prediction,
        open_session (jane_db\<lparr>risk_predictions := [high_prediction],
                              customer_features := jane_feature_rows\<rparr>))"
    by (simp add: service_predict_customer_risk_def get_customer_row_def first_def jane_def
          RiskModel_predict_high high_prediction_def jane_features_def jane_feature_rows_def
          int_float_small db_commit_def add_prediction_def add_feature_def
          open_session_def jane_db_def empty_db_def Let_def)
  show ?thesis
    by (simp only: endpoint feats service snd_conv simp_thms)
qed

text \<open>
  Claim C8, the code at a failing input. The estimator answers the class label 3.
  \<open>RiskModel.predict\<close> maps it to the level Unknown and does not fail; the predict
  endpoint commits a prediction record with that level and returns it, and so does the
  risk service. The level is none of Low, Medium, High, and the response schema's own
  validator rejects it.
\<close>

theorem predict_stores_unknown_level:
  "predict_customer_risk label3_model 2 5 \<lparr>rpc_customer_id = 7, rpc_customer_features = []\<rparr>
     (open_session jane_db) =
     (Inr unknown_prediction, open_session (jane_db\<lparr>risk_predictions := [unknown_prediction]\<rparr>)) \<and>
   service_predict_customer_risk label3_model (\<lambda>k. 2 + k) 5 7 [] (open_session jane_db) =
     (Inr unknown_prediction, open_session (jane_db\<lparr>risk_predictions := [unknown_prediction]\<rparr>)) \<and>
   p_risk_level unknown_prediction \<notin> {''Low'', ''Medium'', ''High''} \<and>
   validate_risk_level (p_risk_level unknown_prediction) =
     Inl (ValueError (Text ''risk_level must be one of ['Low', 'Medium', 'High']''))"
proof -
  have endpoint:
    "predict_customer_risk label3_model 2 5 \<lparr>rpc_customer_id = 7, rpc_customer_features = []\<rparr>
       (open_session jane_db) =
     (Inr unknown_prediction, open_session (jane_db\<lparr>risk_predictions := [unknown_prediction]\<rparr>))"
    by (simp add: predict_customer_risk_def get_customer_row_def first_def jane_def RiskModel_predict_label3
          unknown_prediction_def prediction_of_def db_commit_def add_prediction_def
          open_session_def jane_db_def empty_db_def Let_def)
  have service:
    "service_predict_customer_risk label3_model (\<lambda>k. 2 + k) 5 7 [] (open_session jane_db) =
     (Inr unknown_prediction, open_session (jane_db\<lparr>risk_predictions := [unknown_prediction]\<rparr>))"
    by (simp add: service_predict_customer_risk_def get_customer_row_def first_def jane_def
          RiskModel_predict_label3 unknown_prediction_def prediction_of_def db_commit_def
          add_prediction_def open_session_def jane_db_def empty_db_def Let_def)
  have level: "p_risk_level unknown_prediction \<notin> {''Low'', ''Medium'', ''High''}"
    by (simp add: unknown_prediction_def prediction_of_def)
  have rejected: "validate_risk_level (p_risk_level unknown_prediction) =
                    Inl (ValueError (Text ''risk_level must be one of ['Low', 'Medium', 'High']''))"
    by (simp add: validate_risk_level_def unknown_prediction_def prediction_of_def)
  show ?thesis
    by (simp only: endpoint service level rejected simp_thms)
qed

text \<open>
  Claim C7, as amended. The risk service's predict and \<open>create_customer\<close> are append-only
  on feature records: on success the stored feature table is the former table followed
  by one new row for each written item, so no existing row is changed.
  \<open>update_customer\<close> is not: for a (customer, feature name) pair that already has a row
  it adds none and writes the new value and time into an existing row of the pair; only
  a written name without a row gets one new row. In every case each written item is
  afterwards held by a row of the pair carrying the time of the write.
\<close>

theorem feature_writes_append_or_overwrite:
  "(service_predict_customer_risk rm ids now cid fs s = (Inr p, s') \<longrightarrow>
      (\<exists>rows. customer_features (stored s') = customer_features (view s) @ rows \<and>
         list_all2 (stores_item str_float cid now) rows
           (filter (\<lambda>item. is_number (snd item)) fs))) \<and>
   (create_customer str_float ids now customer (Some fs) s = (Inr data, s') \<longrightarrow>
      (\<exists>rows. customer_features (stored s') = customer_features (view s) @ rows \<and>
         list_all2 (stores_item str_float (ids 0) now) rows
           (filter (\<lambda>item. snd item \<noteq> PNone) fs))) \<and>
   (update_customer str_float ids now cid customer_update (Some fs) s = (Inr data, s') \<and>
    distinct (map fst fs) \<longrightarrow>
      (\<forall>c n. feature_count c n (stored s') =
                (if feature_count c n (view s) = 0 \<and> c = cid \<and> n \<in> written_names fs then 1
                 else feature_count c n (view s))) \<and>
      (\<forall>item \<in> set fs. snd item \<noteq> PNone \<longrightarrow>
         (\<exists>f \<in> set (customer_features (stored s')). stores_item str_float cid now f item)))"
proof -
  have service: "\<exists>rows. customer_features (stored s') = customer_features (view s) @ rows \<and>
                   list_all2 (stores_item str_float cid now) rows
                     (filter (\<lambda>item. is_number (snd item)) fs)"
    if "service_predict_customer_risk rm ids now cid fs s = (Inr p, s')"
    using service_predict_success [OF that, of str_float] by auto
  have create: "\<exists>rows. customer_features (stored s') = customer_features (view s) @ rows \<and>
                  list_all2 (stores_item str_float (ids 0) now) rows
                    (filter (\<lambda>item. snd item \<noteq> PNone) fs)"
    if "create_customer str_float ids now customer (Some fs) s = (Inr data, s')"
    using that create_customer_stored_features [of str_float ids now customer "Some fs" s _ fs data s']
    by blast
  have update:
    "(\<forall>c n. feature_count c n (stored s') =
               (if feature_count c n (view s) = 0 \<and> c = cid \<and> n \<in> written_names fs then 1
                else feature_count c n (view s))) \<and>
     (\<forall>item \<in> set fs. snd item \<noteq> PNone \<longrightarrow>
        (\<exists>f \<in> set (customer_features (stored s')). stores_item str_float cid now f item))"
    if run: "update_customer str_float ids now cid customer_update (Some fs) s = (Inr data, s')"
      and dist: "distinct (map fst fs)"
  proof -
    from update_customer_success [OF run] obtain s1 s2 where
      feats: "customer_features (view s1) = customer_features (view s)"
      and loop: "update_features str_float ids now cid 0 fs s1 = Inr s2"
      and st: "stored s' = view s2"
      by blast
    have before: "feature_count c n (view s1) = feature_count c n (view s)" for c n
      by (simp add: feature_count_def feats)
    have "feature_count c n (stored s') =
            (if feature_count c n (view s) = 0 \<and> c = cid \<and> n \<in> written_names fs then 1
             else feature_count c n (view s))" for c n
      using update_features_count [OF loop, of c n] unfolding st before by simp
    moreover have "\<exists>f \<in> set (customer_features (stored s')). stores_item str_float cid now f item"
      if "item \<in> set fs" "snd item \<noteq> PNone" for item
      using update_features_stores [OF loop dist that] by (simp add: st)
    ultimately show ?thesis by blast
  qed
  from service create update show ?thesis by blast
qed

theorem feature_writes_append_or_overwrite_witness:
  "(\<exists>data s'.
      update_customer (\<lambda>t. None) (\<lambda>k. 30 + k) 9 7 jane_update (Some score_600)
        (open_session jane_full_db) = (Inr data, s') \<and>
      distinct (map fst score_600) \<and>
      feature_count 7 ''credit_score'' (view (open_session jane_full_db)) = 1 \<and>
      feature_count 7 ''credit_score'' (stored s') = 1 \<and>
      (\<exists>f \<in> set (customer_features (stored s')).
         stores_item (\<lambda>t. None) 7 9 f (''credit_score'', PInt 600)))"
proof -
  have "\<exists>data s'. update_customer (\<lambda>t. None) (\<lambda>k. 30 + k) 9 7 jane_update (Some score_600)
                     (open_session jane_full_db) = (Inr data, s')"
    by (simp add: update_customer_def get_customer_row_def first_def open_session_def
          jane_full_db_def jane_def score_600_def credit_score_550_def db_commit_def
          int_float_small get_customer_def Let_def)
  then obtain data s' where
    run: "update_customer (\<lambda>t. None) (\<lambda>k. 30 + k) 9 7 jane_update (Some score_600)
            (open_session jane_full_db) = (Inr data, s')"
    by blast
  have dist: "distinct (map fst score_600)"
    by (simp add: score_600_def)
  have before: "feature_count 7 ''credit_score'' (view (open_session jane_full_db)) = 1"
    by (simp add: feature_count_def open_session_def jane_full_db_def credit_score_550_def)
  have item: "(''credit_score'', PInt 600) \<in> set score_600" "snd (''credit_score'', PInt 600) \<noteq> PNone"
    by (simp_all add: score_600_def)
  from feature_writes_append_or_overwrite
         [where cid = 7 and fs = score_600 and s = "open_session jane_full_db" and s' = s'
            and str_float = "\<lambda>t. None" and ids = "\<lambda>k. 30 + k" and now = 9
            and data = data and customer_update = jane_update]
    run dist
  have count: "\<forall>c n. feature_count c n (stored s') =
                 (if feature_count c n (view (open_session jane_full_db)) = 0 \<and> c = 7 \<and>
                     n \<in> written_names score_600 then 1
                  else feature_count c n (view (open_session jane_full_db)))"
    and held: "\<forall>item \<in> set score_600. snd item \<noteq> PNone \<longrightarrow>
                 (\<exists>f \<in> set (customer_features (stored s')). stores_item (\<lambda>t. None) 7 9 f item)"
    by blast+
  from count before have "feature_count 7 ''credit_score'' (stored s') = 1"
    by simp
  with run dist before held item show ?thesis
    by blast
qed

text \<open>
  The claim as first stated has every feature write append a record and never modify
  one in place. Jane has one credit_score record (value 550, recorded at 2); an update
  of Jane that sends credit_score = 600 at time 9 leaves the table with that one record,
  its value and recorded-at time overwritten.
\<close>

theorem update_customer_overwrites_counterexample:
  "customer_features (view (open_session jane_full_db)) = [credit_score_550] \<and>
   customer_features
     (stored (snd (update_customer (\<lambda>t. None) (\<lambda>k. 30 + k) 9 7 jane_update (Some score_600)
                     (open_session jane_full_db))))
     = [credit_score_550\<lparr>feature_value := 600, recorded_at := 9\<rparr>]"
  by (simp add: update_customer_def get_customer_row_def first_def open_session_def
        jane_full_db_def jane_def score_600_def credit_score_550_def db_commit_def
        int_float_small Let_def)

text \<open>
  Claim C9, as amended. The risk service's predict writes the prediction record and its
  feature records in one commit, made after the last of them is added: when the call
  fails, also inside the feature loop, the stored state is the one before the call, with
  neither the prediction nor any feature; when it succeeds the stored state holds the new
  prediction and a feature row for every numeric item, all of them. \<open>create_customer\<close>
  commits the customer row before it writes the features: whatever the outcome, the
  stored customer table has the new row, and when the request fails the stored feature
  table is as it was.
\<close>

theorem multi_record_commits:
  "(service_predict_customer_risk rm ids now cid fs s = (Inl e, s') \<longrightarrow>
      stored s' = stored s) \<and>
   (service_predict_customer_risk rm ids now cid fs s = (Inr p, s') \<longrightarrow>
      stored s' = view s' \<and>
      risk_predictions (stored s') = risk_predictions (view s) @ [p] \<and>
      (\<exists>rows. customer_features (stored s') = customer_features (view s) @ rows \<and>
         list_all2 (stores_item str_float cid now) rows
           (filter (\<lambda>item. is_number (snd item)) fs))) \<and>
   (\<exists>c. c_id c = ids 0 \<and>
      customers (stored (snd (create_customer str_float ids now customer features s))) =
        customers (view s) @ [c]) \<and>
   (fst (create_customer str_float ids now customer features s) = Inl e \<longrightarrow>
      customer_features (stored (snd (create_customer str_float ids now customer features s)))
        = customer_features (view s))"
proof -
  have fail: "stored s' = stored s"
    if "service_predict_customer_risk rm ids now cid fs s = (Inl e, s')"
    using service_predict_failure [OF that] .
  have ok: "stored s' = view s' \<and>
            risk_predictions (stored s') = risk_predictions (view s) @ [p] \<and>
            (\<exists>rows. customer_features (stored s') = customer_features (view s) @ rows \<and>
               list_all2 (stores_item str_float cid now) rows
                 (filter (\<lambda>item. is_number (snd item)) fs))"
    if "service_predict_customer_risk rm ids now cid fs s = (Inr p, s')"
    using service_predict_success [OF that, of str_float] by auto
  have cust: "\<exists>c. c_id c = ids 0 \<and>
                customers (stored (snd (create_customer str_float ids now customer features s))) =
                  customers (view s) @ [c]"
    by (simp add: create_customer_stored_customers)
  have feat: "customer_features
                (stored (snd (create_customer str_float ids now customer features s)))
              = customer_features (view s)"
    if "fst (create_customer str_float ids now customer features s) = Inl e"
    using that create_customer_stored_features [of str_float ids now customer features s e]
    by blast
  from fail ok cust feat show ?thesis by blast
qed

theorem multi_record_commits_witness:
  "service_predict_customer_risk high_model (\<lambda>k. 20 + k) 5 7 jane_features (open_session jane_db)
     = (Inr high_prediction,
        open_session (jane_db\<lparr>risk_predictions := [high_prediction],
                              customer_features := jane_feature_rows\<rparr>)) \<and>
   (\<exists>rows. customer_features
             (stored (open_session (jane_db\<lparr>risk_predictions := [high_prediction],
                                            customer_features := jane_feature_rows\<rparr>)))
           = customer_features (view (open_session jane_db)) @ rows \<and>
      list_all2 (stores_item (\<lambda>t. None) 7 5) rows
        (filter (\<lambda>item. is_number (snd item)) jane_features)) \<and>
   service_predict_customer_risk high_model (\<lambda>k. 20 + k) 5 7 huge_features (open_session jane_db)
     = (Inl (OverflowError (Text ''int too large to convert to float'')), open_session jane_db) \<and>
   stored (open_session jane_db) = jane_db \<and>
   risk_predictions jane_db = [] \<and> customer_features jane_db = [] \<and>
   fst (create_customer (\<lambda>t. None) (\<lambda>k. 40 + k) 9 ann_create (Some ann_features)
          (open_session empty_db))
     = Inl (TypeError (Text ''float() argument must be a string or a number'')) \<and>
   customer_features
     (stored (snd (create_customer (\<lambda>t. None) (\<lambda>k. 40 + k) 9 ann_create (Some ann_features)
                     (open_session empty_db))))
     = customer_features (view (open_session empty_db))"
proof -
  have run:
    "service_predict_customer_risk high_model (\<lambda>k. 20 + k) 5 7 jane_features (open_session jane_db)
       = (Inr high_prediction,
          open_session (jane_db\<lparr>risk_predictions := [high_prediction],
                                customer_features := jane_feature_rows\<rparr>))"
    by (simp add: service_predict_customer_risk_def get_customer_row_def first_def jane_def
          RiskModel_predict_high high_prediction_def jane_features_def jane_feature_rows_def
          int_float_small db_commit_def add_prediction_def add_feature_def
          open_session_def jane_db_def empty_db_def Let_def)
  have overflow:
    "service_predict_customer_risk high_model (\<lambda>k. 20 + k) 5 7 huge_features (open_session jane_db)
       = (Inl (OverflowError (Text ''int too large to convert to float'')), open_session jane_db)"
    by (simp add: service_predict_customer_risk_def get_customer_row_def first_def jane_def
          RiskModel_predict_high huge_features_def int_float_small int_float_huge
          db_rollback_def add_prediction_def add_feature_def
          open_session_def jane_db_def empty_db_def Let_def)
  have before: "stored (open_session jane_db) = jane_db"
    "risk_predictions jane_db = []" "customer_features jane_db = []"
    by (simp_all add: open_session_def jane_db_def empty_db_def)
  have failed:
    "fst (create_customer (\<lambda>t. None) (\<lambda>k. 40 + k) 9 ann_create (Some ann_features)
            (open_session empty_db))
       = Inl (TypeError (Text ''float() argument must be a string or a number''))"
    by (simp add: create_customer_def ann_create_def ann_features_def int_float_small
          open_session_def empty_db_def db_commit_def add_customer_def add_feature_def Let_def)
  from multi_record_commits
         [where rm = high_model and ids = "\<lambda>k. 20 + k" and now = 5 and cid = 7
            and fs = jane_features and s = "open_session jane_db"
            and s' = "open_session (jane_db\<lparr>risk_predictions := [high_prediction],
                                            customer_features := jane_feature_rows\<rparr>)"
            and p = high_prediction and str_float = "\<lambda>t. None"]
    run
  have part1: "\<exists>rows. customer_features
             (stored (open_session (jane_db\<lparr>risk_predictions := [high_prediction],
                                            customer_features := jane_feature_rows\<rparr>)))
           = customer_features (view (open_session jane_db)) @ rows \<and>
      list_all2 (stores_item (\<lambda>t. None) 7 5) rows
        (filter (\<lambda>item. is_number (snd item)) jane_features)"
    by blast
  from multi_record_commits
         [where rm = high_model and ids = "\<lambda>k. 20 + k" and now = 5 and cid = 7
            and fs = huge_features and s = "open_session jane_db"
            and s' = "open_session jane_db"
            and e = "OverflowError (Text ''int too large to convert to float'')"]
    overflow
  have part2: "stored (open_session jane_db) = stored (open_session jane_db)"
    by blast
  from multi_record_commits
         [where e = "TypeError (Text ''float() argument must be a string or a number'')"
            and ids = "\<lambda>k. 40 + k" and str_float = "\<lambda>t. None" and now = 9
            and customer = ann_create and features = "Some ann_features"
            and s = "open_session empty_db"]
    failed
  have part3: "customer_features
     (stored (snd (create_customer (\<lambda>t. None) (\<lambda>k. 40 + k) 9 ann_create (Some ann_features)
                     (open_session empty_db))))
     = customer_features (view (open_session empty_db))"
    by blast
  from run part1 overflow part2 before failed part3 show ?thesis by blast
qed

text \<open>
  The claim as first stated has every multi-record write commit all or nothing, and
  names the creation of a customer with initial features. A customer sent with
  age = 30 and an extra field holding an array: \<open>float\<close> raises on the array, the request
  fails, the customer row is committed and no feature row is, the age included.
\<close>

theorem create_customer_partial_commit_counterexample:
  "create_customer (\<lambda>t. None) (\<lambda>k. 40 + k) 9 ann_create (Some ann_features)
     (open_session empty_db)
     = (Inl (TypeError (Text ''float() argument must be a string or a number'')),
        open_session (empty_db\<lparr>customers := [ann]\<rparr>)) \<and>
   customers (stored (open_session (empty_db\<lparr>customers := [ann]\<rparr>))) = [ann] \<and>
   customer_features (stored (open_session (empty_db\<lparr>customers := [ann]\<rparr>))) = []"
  by (simp add: create_customer_def ann_create_def ann_features_def ann_def open_session_def
        empty_db_def db_commit_def add_customer_def add_feature_def int_float_small Let_def)


end
